theory Spec2Isabelle
  imports Main
begin

section \<open>The WebRTC HTTP server (internal/core/webrtc\_http\_server.go)\<close>

text \<open>
  The file verified here is the HTTP front-end of the WHIP/WHEP signalling: the single
  handler \<open>onRequest\<close>, installed as the router's fallback, and the handlers it
  dispatches to. The handlers are modelled as functions on an explicit request context:
  the request, the response writer (header map, status, body) and a trace of the effects
  a handler has on the world outside it, in the order it performs them (calls of the path
  manager and of the session coordinator, log lines, pauses, status lines written).

  Everything the handlers call but do not define is a parameter: the server's
  collaborators (\<open>pathManager\<close>, \<open>parent\<close>) are records of functions, and the
  library functions, package constants and embedded files are collected in the record
  \<open>Externals\<close>. Every theorem holds for all of them.
\<close>

subsection \<open>Data\<close>

type_synonym bytes = string

text \<open>\<open>http.Header\<close> is \<open>map[string][]string\<close>. Keys are written as in the source; the
  keys the source uses are pairwise different also when compared without case.\<close>

type_synonym Header = "string \<rightharpoonup> string list"

record URL =
  Path :: string
  RawQuery :: string

text \<open>
  The request. \<open>Body\<close> is what \<open>io.ReadAll(ctx.Request.Body)\<close> returns: \<open>None\<close>
  when reading fails. \<open>ClientIP\<close> and \<open>BasicAuth\<close> are the results of
  \<open>ctx.ClientIP()\<close> and \<open>ctx.Request.BasicAuth()\<close> (\<open>None\<close> when the last
  component \<open>hasCredentials\<close> is false).
\<close>

record Request =
  Method :: string
  url :: URL
  ReqHeader :: Header
  Body :: "bytes option"
  RemoteAddr :: string
  ClientIP :: string
  BasicAuth :: "(string \<times> string) option"

datatype UUID = UUID "nat list"

record ICEServer =
  URLs :: "string list"
  Username :: string
  Credential :: string

datatype authProtocol = authProtocolWebRTC

text \<open>The fields of the request structs carry a prefix (\<open>ar_\<close>, \<open>ns_\<close>, \<open>sx_\<close>,
  \<open>ac_\<close>, \<open>ds_\<close>), since the handlers' local variables have the same names.\<close>

record pathAccessRequest =
  ar_name :: string
  ar_query :: string
  ar_publish :: bool
  ar_ip :: "nat list"
  ar_user :: string
  ar_pass :: string
  ar_proto :: authProtocol

text \<open>The error of \<open>getConfForPath\<close>: an \<open>*errAuthentication\<close> with its message, or
  any other error.\<close>

datatype confError = errAuthentication string | errOther string

record webRTCNewSessionReq =
  ns_pathName :: string
  ns_remoteAddr :: string
  ns_query :: string
  ns_user :: string
  ns_pass :: string
  ns_offer :: bytes
  ns_publish :: bool

record webRTCSession =
  sx_uuid :: UUID
  sx_secret :: UUID

record webRTCNewSessionRes =
  sx :: webRTCSession
  answer :: bytes
  err :: "string option"
  errStatusCode :: int

record webRTCAddSessionCandidatesReq =
  ac_secret :: UUID
  ac_candidates :: "string list"

record webRTCDeleteSessionReq =
  ds_secret :: UUID

text \<open>The effects of a handler, in the order it performs them. \<open>Sleep d\<close> is
  \<open><-time.After(d)\<close>, with \<open>d\<close> a \<open>time.Duration\<close> in nanoseconds.\<close>

datatype event =
    CallGetConfForPath pathAccessRequest
  | CallGenerateICEServers
  | CallNewSession webRTCNewSessionReq
  | CallAddSessionCandidates webRTCAddSessionCandidatesReq
  | CallDeleteSession webRTCDeleteSessionReq
  | LogInfo string string
  | Sleep int
  | WroteHeader int
  | WroteBody bytes

record ResponseWriter =
  hdr :: Header
  status :: "int option"
  body :: bytes

text \<open>\<open>status = None\<close>: the handler has not called \<open>WriteHeader\<close>. The status that
  reaches the client is then the router's choice and not this file's.\<close>

record Context =
  Request :: Request
  Writer :: ResponseWriter
  trace :: "event list"

record pathManager =
  getConfForPath :: "pathAccessRequest \<Rightarrow> confError option"

record webRTCHTTPServerParent =
  generateICEServers :: "string + ICEServer list"
  newSession :: "webRTCNewSessionReq \<Rightarrow> webRTCNewSessionRes"
  addSessionCandidates :: "webRTCAddSessionCandidatesReq \<Rightarrow> string option"
  deleteSession :: "webRTCDeleteSessionReq \<Rightarrow> string option"

record webRTCHTTPServer =
  allowOrigin :: string
  pathManager :: pathManager
  parent :: webRTCHTTPServerParent

text \<open>
  What the file uses and does not define: functions of the standard library
  (\<open>net.SplitHostPort\<close>, of which only the port is used, \<open>net.ParseIP\<close>), of
  \<open>google/uuid\<close> (\<open>uuid.Parse\<close>, \<open>UUID.String\<close>) and of the package
  \<open>protocols/webrtc\<close> (\<open>ICEFragmentUnmarshal\<close>, \<open>LinkHeaderMarshal\<close>), the
  package constant \<open>webrtcPauseAfterAuthError\<close> and the two embedded pages.
\<close>

record Externals =
  SplitHostPort_port :: "string \<Rightarrow> string"
  ParseIP :: "string \<Rightarrow> nat list"
  uuid_Parse :: "string \<Rightarrow> UUID option"
  uuid_String :: "UUID \<Rightarrow> string"
  ICEFragmentUnmarshal :: "bytes \<Rightarrow> string list option"
  LinkHeaderMarshal :: "ICEServer list \<Rightarrow> string list"
  webrtcPauseAfterAuthError :: int
  webrtcPublishIndex :: bytes
  webrtcReadIndex :: bytes

subsection \<open>Constants of \<open>net/http\<close> and of \<open>time\<close>\<close>

definition MethodGet :: string where "MethodGet = ''GET''"
definition MethodHead :: string where "MethodHead = ''HEAD''"
definition MethodPost :: string where "MethodPost = ''POST''"
definition MethodPut :: string where "MethodPut = ''PUT''"
definition MethodPatch :: string where "MethodPatch = ''PATCH''"
definition MethodDelete :: string where "MethodDelete = ''DELETE''"
definition MethodOptions :: string where "MethodOptions = ''OPTIONS''"

definition StatusOK :: int where "StatusOK = 200"
definition StatusCreated :: int where "StatusCreated = 201"
definition StatusNoContent :: int where "StatusNoContent = 204"
definition StatusMovedPermanently :: int where "StatusMovedPermanently = 301"
definition StatusBadRequest :: int where "StatusBadRequest = 400"
definition StatusUnauthorized :: int where "StatusUnauthorized = 401"
definition StatusNotFound :: int where "StatusNotFound = 404"
definition StatusMethodNotAllowed :: int where "StatusMethodNotAllowed = 405"
definition StatusInternalServerError :: int where "StatusInternalServerError = 500"

definition Second :: int where "Second = 1000000000"

subsection \<open>The request and the response writer\<close>

text \<open>\<open>Header.Get\<close>: the first value of the key, the empty string when there is
  none.\<close>

definition Header_Get :: "Header \<Rightarrow> string \<Rightarrow> string" where
  "Header_Get h k = (case h k of None \<Rightarrow> [] | Some [] \<Rightarrow> [] | Some (v # _) \<Rightarrow> v)"

text \<open>\<open>ctx.Writer.Header().Set(k, v)\<close> and \<open>ctx.Header(k, v)\<close> with a non-empty
  value.\<close>

definition Header_Set :: "string \<Rightarrow> string \<Rightarrow> Context \<Rightarrow> Context" where
  "Header_Set k v ctx = ctx\<lparr>Writer := (Writer ctx)\<lparr>hdr := (hdr (Writer ctx))(k \<mapsto> [v])\<rparr>\<rparr>"

text \<open>\<open>ctx.Writer.Header()[k] = vs\<close>.\<close>

definition Header_Assign :: "string \<Rightarrow> string list \<Rightarrow> Context \<Rightarrow> Context" where
  "Header_Assign k vs ctx = ctx\<lparr>Writer := (Writer ctx)\<lparr>hdr := (hdr (Writer ctx))(k \<mapsto> vs)\<rparr>\<rparr>"

definition WriteHeader :: "int \<Rightarrow> Context \<Rightarrow> Context" where
  "WriteHeader code ctx =
     ctx\<lparr>Writer := (Writer ctx)\<lparr>status := Some code\<rparr>, trace := trace ctx @ [WroteHeader code]\<rparr>"

definition Write :: "bytes \<Rightarrow> Context \<Rightarrow> Context" where
  "Write b ctx =
     ctx\<lparr>Writer := (Writer ctx)\<lparr>body := body (Writer ctx) @ b\<rparr>, trace := trace ctx @ [WroteBody b]\<rparr>"

definition emit :: "event \<Rightarrow> Context \<Rightarrow> Context" where
  "emit e ctx = ctx\<lparr>trace := trace ctx @ [e]\<rparr>"

text \<open>\<open>net.JoinHostPort\<close>: a host with a colon is taken for an IPv6 literal and put in
  brackets.\<close>

definition JoinHostPort :: "string \<Rightarrow> string \<Rightarrow> string" where
  "JoinHostPort host port =
     (if CHR '':'' \<in> set host then ''['' @ host @ '']:'' @ port
      else host @ '':'' @ port)"

text \<open>\<open>strings.HasSuffix\<close>.\<close>

definition HasSuffix :: "string \<Rightarrow> string \<Rightarrow> bool" where
  "HasSuffix s suffix \<longleftrightarrow>
     length suffix \<le> length s \<and> drop (length s - length suffix) s = suffix"

text \<open>The slice expression \<open>s[lo:hi]\<close> of a string: it panics (\<open>None\<close>) unless
  \<open>0 \<le> lo \<le> hi \<le> len(s)\<close>.\<close>

definition slice :: "string \<Rightarrow> int \<Rightarrow> int \<Rightarrow> string option" where
  "slice s lo hi =
     (if 0 \<le> lo \<and> lo \<le> hi \<and> hi \<le> int (length s)
      then Some (take (nat (hi - lo)) (drop (nat lo) s)) else None)"

subsection \<open>The two URL patterns\<close>

text \<open>
  \<open>reWHIPWHEPNoID = ^/(.+?)/(whip|whep)$\<close> and
  \<open>reWHIPWHEPWithID = ^/(.+?)/(whip|whep)/(.+?)$\<close>, matched by
  \<open>FindStringSubmatch\<close>. The functions return the groups \<open>m[1], m[2]\<close> (and
  \<open>m[3]\<close>), \<open>None\<close> for a \<open>nil\<close> result. A dot matches every character but the
  line feed, \<open>$\<close> matches at the end of the text only, and the lazy \<open>.+?\<close> of the first
  group is tried shortest first: \<open>acc\<close> is what the group holds so far, already found
  not to do, so the group takes the next character and what follows it is tried.
\<close>

definition LF :: char where "LF = CHR 0x0A"

fun matchNoID :: "string \<Rightarrow> string \<Rightarrow> (string \<times> string) option" where
  "matchNoID acc [] = None"
| "matchNoID acc (c # cs) =
     (if c = LF then None
      else if cs = ''/whip'' then Some (acc @ [c], ''whip'')
      else if cs = ''/whep'' then Some (acc @ [c], ''whep'')
      else matchNoID (acc @ [c]) cs)"

definition reWHIPWHEPNoID :: "string \<Rightarrow> (string \<times> string) option" where
  "reWHIPWHEPNoID p = (case p of [] \<Rightarrow> None | c # cs \<Rightarrow> if c = CHR ''/'' then matchNoID [] cs else None)"

text \<open>What follows the first group in the second pattern: \<open>/(whip|whep)/(.+?)$\<close>. The
  last group must reach the end of the text, so it is all that is left, when that is not
  empty and has no line feed.\<close>

fun stripPrefix :: "string \<Rightarrow> string \<Rightarrow> string option" where
  "stripPrefix [] cs = Some cs"
| "stripPrefix (p # ps) [] = None"
| "stripPrefix (p # ps) (c # cs) = (if p = c then stripPrefix ps cs else None)"

definition lastGroup :: "string \<Rightarrow> string option" where
  "lastGroup i = (if i \<noteq> [] \<and> LF \<notin> set i then Some i else None)"

definition matchKindID :: "string \<Rightarrow> (string \<times> string) option" where
  "matchKindID cs =
     (case Option.bind (stripPrefix ''/whip/'' cs) lastGroup of
        Some i \<Rightarrow> Some (''whip'', i)
      | None \<Rightarrow>
          (case Option.bind (stripPrefix ''/whep/'' cs) lastGroup of
             Some i \<Rightarrow> Some (''whep'', i)
           | None \<Rightarrow> None))"

fun matchWithID :: "string \<Rightarrow> string \<Rightarrow> (string \<times> string \<times> string) option" where
  "matchWithID acc [] = None"
| "matchWithID acc (c # cs) =
     (if c = LF then None
      else case matchKindID cs of
             Some (k, i) \<Rightarrow> Some (acc @ [c], k, i)
           | None \<Rightarrow> matchWithID (acc @ [c]) cs)"

definition reWHIPWHEPWithID :: "string \<Rightarrow> (string \<times> string \<times> string) option" where
  "reWHIPWHEPWithID p = (case p of [] \<Rightarrow> None | c # cs \<Rightarrow> if c = CHR ''/'' then matchWithID [] cs else None)"

subsection \<open>The handlers\<close>

definition relativeLocation :: "URL \<Rightarrow> string" where
  "relativeLocation u = (if RawQuery u \<noteq> [] then Path u @ ''?'' @ RawQuery u else Path u)"

text \<open>\<open>ctx.Request.URL.Path += s\<close>.\<close>

definition appendPath :: "string \<Rightarrow> Context \<Rightarrow> Context" where
  "appendPath t ctx =
     ctx\<lparr>Request := (Request ctx)\<lparr>url := (url (Request ctx))\<lparr>Path := Path (url (Request ctx)) @ t\<rparr>\<rparr>\<rparr>"

text \<open>The literal \<^verbatim>\<open>Basic realm="mediamtx"\<close>.\<close>

definition challenge :: string where
  "challenge = ''Basic realm='' @ [CHR 0x22] @ ''mediamtx'' @ [CHR 0x22]"

text \<open>
  The first lines of \<open>checkAuthOutsideSession\<close> and of \<open>onWHIPPost\<close> are the same:
  the address of the client for the log, from \<open>ctx.ClientIP()\<close> and the port of
  \<open>RemoteAddr\<close>, and the credentials of \<open>BasicAuth()\<close>, empty strings when there are
  none. The struct literals the two functions pass on follow.
\<close>

definition clientAddr :: "Externals \<Rightarrow> Request \<Rightarrow> string" where
  "clientAddr x r =
     (let ip = ClientIP r;
          port = SplitHostPort_port x (RemoteAddr r)
      in JoinHostPort ip port)"

definition credentials :: "Request \<Rightarrow> string \<times> string \<times> bool" where
  "credentials r = (case BasicAuth r of None \<Rightarrow> ([], [], False) | Some (u, p) \<Rightarrow> (u, p, True))"

definition accessRequest :: "Externals \<Rightarrow> Request \<Rightarrow> string \<Rightarrow> bool \<Rightarrow> pathAccessRequest" where
  "accessRequest x r path publish =
     (let (user, pass, hasCredentials) = credentials r
      in \<lparr>ar_name = path, ar_query = RawQuery (url r), ar_publish = publish,
          ar_ip = ParseIP x (ClientIP r), ar_user = user, ar_pass = pass,
          ar_proto = authProtocolWebRTC\<rparr>)"

definition sessionRequest ::
  "Externals \<Rightarrow> Request \<Rightarrow> string \<Rightarrow> bool \<Rightarrow> bytes \<Rightarrow> webRTCNewSessionReq" where
  "sessionRequest x r path publish offer =
     (let (user, pass, hasCredentials) = credentials r
      in \<lparr>ns_pathName = path, ns_remoteAddr = clientAddr x r, ns_query = RawQuery (url r),
          ns_user = user, ns_pass = pass, ns_offer = offer, ns_publish = publish\<rparr>)"

definition checkAuthOutsideSession ::
  "Externals \<Rightarrow> webRTCHTTPServer \<Rightarrow> Context \<Rightarrow> string \<Rightarrow> bool \<Rightarrow> bool \<times> Context" where
  "checkAuthOutsideSession x s ctx path publish =
     (let remoteAddr = clientAddr x (Request ctx);
          (user, pass, hasCredentials) = credentials (Request ctx);
          req = accessRequest x (Request ctx) path publish;
          ctx = emit (CallGetConfForPath req) ctx
      in case getConfForPath (pathManager s) req of
           Some (errAuthentication message) \<Rightarrow>
             if \<not> hasCredentials then
               (let ctx = Header_Set ''WWW-Authenticate'' challenge ctx;
                    ctx = WriteHeader StatusUnauthorized ctx
                in (False, ctx))
             else
               (let ctx = emit (LogInfo remoteAddr message) ctx;
                    ctx = emit (Sleep (webrtcPauseAfterAuthError x)) ctx;
                    ctx = WriteHeader StatusUnauthorized ctx
                in (False, ctx))
         | Some (errOther _) \<Rightarrow> (False, WriteHeader StatusNotFound ctx)
         | None \<Rightarrow> (True, ctx))"

definition onWHIPOptions ::
  "Externals \<Rightarrow> webRTCHTTPServer \<Rightarrow> Context \<Rightarrow> string \<Rightarrow> bool \<Rightarrow> Context" where
  "onWHIPOptions x s ctx path publish =
     (let (ok, ctx) = checkAuthOutsideSession x s ctx path publish
      in if \<not> ok then ctx
         else
           (let ctx = emit CallGenerateICEServers ctx
            in case generateICEServers (parent s) of
                 Inl _ \<Rightarrow> WriteHeader StatusInternalServerError ctx
               | Inr servers \<Rightarrow>
                   (let ctx = Header_Set ''Access-Control-Allow-Methods''
                                ''OPTIONS, GET, POST, PATCH, DELETE'' ctx;
                        ctx = Header_Set ''Access-Control-Allow-Headers''
                                ''Authorization, Content-Type, If-Match'' ctx;
                        ctx = Header_Set ''Access-Control-Expose-Headers'' ''Link'' ctx;
                        ctx = Header_Assign ''Link'' (LinkHeaderMarshal x servers) ctx
                    in WriteHeader StatusNoContent ctx)))"

definition onWHIPPost ::
  "Externals \<Rightarrow> webRTCHTTPServer \<Rightarrow> Context \<Rightarrow> string \<Rightarrow> bool \<Rightarrow> Context" where
  "onWHIPPost x s ctx path publish =
     (if Header_Get (ReqHeader (Request ctx)) ''Content-Type'' \<noteq> ''application/sdp''
      then WriteHeader StatusBadRequest ctx
      else case Body (Request ctx) of
        None \<Rightarrow> ctx
      | Some offer \<Rightarrow>
          (let req = sessionRequest x (Request ctx) path publish offer;
               ctx = emit (CallNewSession req) ctx;
               res = newSession (parent s) req
           in if err res \<noteq> None then WriteHeader (errStatusCode res) ctx
              else
                (let ctx = emit CallGenerateICEServers ctx
                 in case generateICEServers (parent s) of
                      Inl _ \<Rightarrow> WriteHeader StatusInternalServerError ctx
                    | Inr servers \<Rightarrow>
                        (let ctx = Header_Set ''Content-Type'' ''application/sdp'' ctx;
                             ctx = Header_Set ''Access-Control-Expose-Headers''
                                     ''ETag, Accept-Patch, Link, Location'' ctx;
                             ctx = Header_Set ''ETag'' ''*'' ctx;
                             ctx = Header_Set ''ID'' (uuid_String x (sx_uuid (sx res))) ctx;
                             ctx = Header_Set ''Accept-Patch'' ''application/trickle-ice-sdpfrag'' ctx;
                             ctx = Header_Assign ''Link'' (LinkHeaderMarshal x servers) ctx;
                             ctx = appendPath (''/'' @ uuid_String x (sx_secret (sx res))) ctx;
                             ctx = Header_Set ''Location'' (relativeLocation (url (Request ctx))) ctx;
                             ctx = WriteHeader StatusCreated ctx
                         in Write (answer res) ctx))))"

definition onWHIPPatch ::
  "Externals \<Rightarrow> webRTCHTTPServer \<Rightarrow> Context \<Rightarrow> string \<Rightarrow> Context" where
  "onWHIPPatch x s ctx rawSecret =
     (case uuid_Parse x rawSecret of
        None \<Rightarrow> WriteHeader StatusBadRequest ctx
      | Some secret \<Rightarrow>
          if Header_Get (ReqHeader (Request ctx)) ''Content-Type'' \<noteq> ''application/trickle-ice-sdpfrag''
          then WriteHeader StatusBadRequest ctx
          else
            (case Body (Request ctx) of
               None \<Rightarrow> ctx
             | Some byts \<Rightarrow>
                 (case ICEFragmentUnmarshal x byts of
                    None \<Rightarrow> WriteHeader StatusBadRequest ctx
                  | Some candidates \<Rightarrow>
                      (let req = \<lparr>ac_secret = secret, ac_candidates = candidates\<rparr>;
                           ctx = emit (CallAddSessionCandidates req) ctx
                       in if addSessionCandidates (parent s) req \<noteq> None
                          then WriteHeader StatusBadRequest ctx
                          else WriteHeader StatusNoContent ctx))))"

definition onWHIPDelete ::
  "Externals \<Rightarrow> webRTCHTTPServer \<Rightarrow> Context \<Rightarrow> string \<Rightarrow> Context" where
  "onWHIPDelete x s ctx rawSecret =
     (case uuid_Parse x rawSecret of
        None \<Rightarrow> WriteHeader StatusBadRequest ctx
      | Some secret \<Rightarrow>
          (let req = \<lparr>ds_secret = secret\<rparr>;
               ctx = emit (CallDeleteSession req) ctx
           in if deleteSession (parent s) req \<noteq> None
              then WriteHeader StatusBadRequest ctx
              else WriteHeader StatusOK ctx))"

definition onPage ::
  "Externals \<Rightarrow> webRTCHTTPServer \<Rightarrow> Context \<Rightarrow> string \<Rightarrow> bool \<Rightarrow> Context" where
  "onPage x s ctx path publish =
     (let (ok, ctx) = checkAuthOutsideSession x s ctx path publish
      in if \<not> ok then ctx
         else
           (let ctx = Header_Set ''Cache-Control'' ''max-age=3600'' ctx;
                ctx = Header_Set ''Content-Type'' ''text/html'' ctx;
                ctx = WriteHeader StatusOK ctx
            in if publish then Write (webrtcPublishIndex x) ctx
               else Write (webrtcReadIndex x) ctx))"

text \<open>
  \<open>onRequest\<close> ends in a panic where a slice expression is out of range; the server
  then sends no response. Everywhere else it returns the context the handler leaves.
\<close>

datatype panic = SliceBoundsOutOfRange

text \<open>The first two statements of \<open>onRequest\<close>.\<close>

definition corsHeaders :: "webRTCHTTPServer \<Rightarrow> Context \<Rightarrow> Context" where
  "corsHeaders s ctx =
     (let ctx = Header_Set ''Access-Control-Allow-Origin'' (allowOrigin s) ctx
      in Header_Set ''Access-Control-Allow-Credentials'' ''true'' ctx)"

text \<open>
  \<open>onRequest\<close> is one function of four blocks, each ending in \<open>return\<close>; the
  blocks are the next four definitions, named after the comments that head them in the
  source, and \<open>onRequest\<close> is the tests that choose among them.
\<close>

text \<open>\<open>// preflight requests\<close>: the body of the first \<open>if\<close>.\<close>

definition preflightRequest :: "Context \<Rightarrow> Context" where
  "preflightRequest ctx =
     (let ctx = Header_Set ''Access-Control-Allow-Methods''
                  ''OPTIONS, GET, POST, PATCH, DELETE'' ctx;
          ctx = Header_Set ''Access-Control-Allow-Headers''
                  ''Authorization, Content-Type, If-Match'' ctx
      in WriteHeader StatusNoContent ctx)"

text \<open>\<open>// WHIP, outside session\<close>: the switch on the method, for the match \<open>m\<close> of
  \<open>reWHIPWHEPNoID\<close>.\<close>

definition outsideSession ::
  "Externals \<Rightarrow> webRTCHTTPServer \<Rightarrow> Context \<Rightarrow> string \<Rightarrow> string \<Rightarrow> Context" where
  "outsideSession x s ctx m1 m2 =
     (let method = Method (Request ctx)
      in if method = MethodOptions then onWHIPOptions x s ctx m1 (m2 = ''whip'')
         else if method = MethodPost then onWHIPPost x s ctx m1 (m2 = ''whip'')
         else if method = MethodGet \<or> method = MethodHead \<or> method = MethodPut
         then WriteHeader StatusMethodNotAllowed ctx
         else ctx)"

text \<open>\<open>// WHIP, inside session\<close>: the switch on the method, for the third group of the
  match of \<open>reWHIPWHEPWithID\<close>.\<close>

definition insideSession ::
  "Externals \<Rightarrow> webRTCHTTPServer \<Rightarrow> Context \<Rightarrow> string \<Rightarrow> Context" where
  "insideSession x s ctx m3 =
     (let method = Method (Request ctx)
      in if method = MethodPatch then onWHIPPatch x s ctx m3
         else if method = MethodDelete then onWHIPDelete x s ctx m3
         else ctx)"

text \<open>\<open>// static resources\<close>: the switch of a GET request that matched neither
  pattern.\<close>

definition staticResources ::
  "Externals \<Rightarrow> webRTCHTTPServer \<Rightarrow> Context \<Rightarrow> panic + Context" where
  "staticResources x s ctx =
     (let p = Path (url (Request ctx))
      in if p = ''/favicon.ico'' then Inr ctx
         else if 3 \<le> length p then
           (if HasSuffix p ''/publish'' then
              (case slice p 1 (int (length p) - int (length ''/publish'')) of
                 None \<Rightarrow> Inl SliceBoundsOutOfRange
               | Some name \<Rightarrow> Inr (onPage x s ctx name True))
            else if p ! (length p - 1) \<noteq> CHR ''/'' then
              (let ctx = appendPath ''/'' ctx;
                   ctx = Header_Set ''Location'' (relativeLocation (url (Request ctx))) ctx
               in Inr (WriteHeader StatusMovedPermanently ctx))
            else
              (case slice p 1 (int (length p) - 1) of
                 None \<Rightarrow> Inl SliceBoundsOutOfRange
               | Some name \<Rightarrow> Inr (onPage x s ctx name False)))
         else Inr ctx)"

definition onRequest :: "Externals \<Rightarrow> webRTCHTTPServer \<Rightarrow> Context \<Rightarrow> panic + Context" where
  "onRequest x s ctx0 =
     (let ctx = corsHeaders s ctx0;
          method = Method (Request ctx);
          p = Path (url (Request ctx))
      in
      if method = MethodOptions \<and>
         Header_Get (ReqHeader (Request ctx)) ''Access-Control-Request-Method'' \<noteq> []
      then Inr (preflightRequest ctx)
      else case reWHIPWHEPNoID p of
        Some (m1, m2) \<Rightarrow> Inr (outsideSession x s ctx m1 m2)
      | None \<Rightarrow>
          (case reWHIPWHEPWithID p of
             Some (m1, m2, m3) \<Rightarrow> Inr (insideSession x s ctx m3)
           | None \<Rightarrow>
               if method = MethodGet then staticResources x s ctx
               else Inr ctx))"

text \<open>
  The context of a request that arrives: the router installs no other handler, so
  \<open>onRequest\<close> starts from a writer with no header, no status and no body.
\<close>

definition newContext :: "Request \<Rightarrow> Context" where
  "newContext r = \<lparr>Request = r, Writer = \<lparr>hdr = Map.empty, status = None, body = []\<rparr>, trace = []\<rparr>"

definition serve :: "Externals \<Rightarrow> webRTCHTTPServer \<Rightarrow> Request \<Rightarrow> panic + Context" where
  "serve x s r = onRequest x s (newContext r)"

text \<open>The time a handler has paused: the sum of its \<open>Sleep\<close> events.\<close>

fun paused :: "event list \<Rightarrow> int" where
  "paused [] = 0"
| "paused (Sleep d # es) = d + paused es"
| "paused (e # es) = paused es"

text \<open>
  Modelled from the spec: the constant \<open>webrtcPauseAfterAuthError\<close> is declared in
  another file of the package, so its value is a parameter here. The spec (4.2) says of it
  that the delay after a credential failure is fixed and at least one second.
\<close>

definition pauseAtLeastOneSecond :: "Externals \<Rightarrow> bool" where
  "pauseAtLeastOneSecond x \<longleftrightarrow> Second \<le> webrtcPauseAfterAuthError x"

subsection \<open>A concrete server\<close>

text \<open>
  One server for the examples: the path \<open>cam1\<close> is configured and asks for the user
  \<open>admin\<close> with the password \<open>secret\<close>; one session exists, with the secret
  \<open>demoSecret\<close>; the pause after a failed authentication is two seconds.
\<close>

definition demoSecret :: UUID where
  "demoSecret = UUID [0xf8, 0x1d, 0x4f, 0xae, 0x7d, 0xec, 0x11, 0xd0, 0xa7, 0x65, 0x00, 0xa0, 0xc9, 0x1e, 0x6b, 0xf6]"

definition demoSecretText :: string where
  "demoSecretText = ''f81d4fae-7dec-11d0-a765-00a0c91e6bf6''"

definition demoID :: UUID where
  "demoID = UUID [0x12, 0x3e, 0x45, 0x67, 0xe8, 0x9b, 0x12, 0xd3, 0xa4, 0x56, 0x42, 0x66, 0x14, 0x17, 0x40, 0x00]"

definition demoIDText :: string where
  "demoIDText = ''123e4567-e89b-12d3-a456-426614174000''"

definition demoExternals :: Externals where
  "demoExternals =
     \<lparr>SplitHostPort_port = (\<lambda>a. ''51234''),
      ParseIP = (\<lambda>a. [192, 0, 2, 7]),
      uuid_Parse = (\<lambda>t. if t = demoSecretText then Some demoSecret
                         else if t = demoIDText then Some demoID else None),
      uuid_String = (\<lambda>u. if u = demoSecret then demoSecretText else demoIDText),
      ICEFragmentUnmarshal = (\<lambda>b. if b = [] then None else Some [b]),
      LinkHeaderMarshal = map (\<lambda>sv. ''<'' @ concat (URLs sv) @ ''>; rel=ice-server''),
      webrtcPauseAfterAuthError = 2 * Second,
      webrtcPublishIndex = ''<html>publish</html>'',
      webrtcReadIndex = ''<html>read</html>''\<rparr>"

definition demoPathManager :: pathManager where
  "demoPathManager =
     \<lparr>getConfForPath = (\<lambda>r.
        if ar_name r \<noteq> ''cam1'' then Some (errOther ''path is not configured'')
        else if ar_user r = ''admin'' \<and> ar_pass r = ''secret'' then None
        else Some (errAuthentication ''authentication failed''))\<rparr>"

definition demoParent :: webRTCHTTPServerParent where
  "demoParent =
     \<lparr>generateICEServers =
        Inr [\<lparr>URLs = [''stun:stun.example.org:3478''], Username = [], Credential = []\<rparr>],
      newSession = (\<lambda>r.
        if ns_user r = ''admin'' \<and> ns_pass r = ''secret''
        then \<lparr>sx = \<lparr>sx_uuid = demoID, sx_secret = demoSecret\<rparr>, answer = ''v=0 answer'',
              err = None, errStatusCode = 0\<rparr>
        else \<lparr>sx = \<lparr>sx_uuid = demoID, sx_secret = demoSecret\<rparr>, answer = [],
              err = Some ''authentication failed'', errStatusCode = 401\<rparr>),
      addSessionCandidates = (\<lambda>r.
        if ac_secret r = demoSecret then None else Some ''session not found''),
      deleteSession = (\<lambda>r.
        if ds_secret r = demoSecret then None else Some ''session not found'')\<rparr>"

definition demoServer :: webRTCHTTPServer where
  "demoServer = \<lparr>allowOrigin = ''*'', pathManager = demoPathManager, parent = demoParent\<rparr>"

text \<open>The same server when the coordinator cannot produce its list of ICE servers.\<close>

definition demoServerNoICE :: webRTCHTTPServer where
  "demoServerNoICE =
     demoServer\<lparr>parent := demoParent\<lparr>generateICEServers := Inl ''no randomness''\<rparr>\<rparr>"

text \<open>A request with no header, no query, no credentials and an empty body.\<close>

definition demoRequest :: "string \<Rightarrow> string \<Rightarrow> Request" where
  "demoRequest method path =
     \<lparr>Method = method, url = \<lparr>Path = path, RawQuery = []\<rparr>, ReqHeader = Map.empty,
      Body = Some [], RemoteAddr = ''192.0.2.7:51234'', ClientIP = ''192.0.2.7'',
      BasicAuth = None\<rparr>"


text \<open>A request with the credentials the concrete server accepts.\<close>

definition demoAdmin :: "Request \<Rightarrow> Request" where
  "demoAdmin r = r\<lparr>BasicAuth := Some (''admin'', ''secret'')\<rparr>"

text \<open>An OPTIONS request of the user \<open>admin\<close> that carries the header
  \<open>Access-Control-Request-Method\<close> with an empty value.\<close>

definition demoEmptyPreflight :: Request where
  "demoEmptyPreflight =
     (demoAdmin (demoRequest ''OPTIONS'' ''/cam1/whip''))
       \<lparr>ReqHeader := [''Access-Control-Request-Method'' \<mapsto> [[]]]\<rparr>"

text \<open>The POST of an SDP offer to \<open>/cam1/whip\<close> by the user \<open>admin\<close>, with the query
  given.\<close>

definition demoPost :: "string \<Rightarrow> Request" where
  "demoPost q =
     (demoAdmin (demoRequest ''POST'' ''/cam1/whip''))
       \<lparr>url := \<lparr>Path = ''/cam1/whip'', RawQuery = q\<rparr>,
        ReqHeader := [''Content-Type'' \<mapsto> [''application/sdp'']],
        Body := Some ''v=0 offer''\<rparr>"


section \<open>The response writer, field by field\<close>

text \<open>What each operation on the context does to each field. The proofs about the
  handlers use these equations and leave the operations folded.\<close>

lemma Header_Set_simps [simp]:
  "hdr (Writer (Header_Set k v c)) = (hdr (Writer c))(k \<mapsto> [v])"
  "status (Writer (Header_Set k v c)) = status (Writer c)"
  "body (Writer (Header_Set k v c)) = body (Writer c)"
  "trace (Header_Set k v c) = trace c"
  "Request (Header_Set k v c) = Request c"
  by (simp_all add: Header_Set_def)

lemma Header_Assign_simps [simp]:
  "hdr (Writer (Header_Assign k vs c)) = (hdr (Writer c))(k \<mapsto> vs)"
  "status (Writer (Header_Assign k vs c)) = status (Writer c)"
  "body (Writer (Header_Assign k vs c)) = body (Writer c)"
  "trace (Header_Assign k vs c) = trace c"
  "Request (Header_Assign k vs c) = Request c"
  by (simp_all add: Header_Assign_def)

lemma WriteHeader_simps [simp]:
  "hdr (Writer (WriteHeader code c)) = hdr (Writer c)"
  "status (Writer (WriteHeader code c)) = Some code"
  "body (Writer (WriteHeader code c)) = body (Writer c)"
  "trace (WriteHeader code c) = trace c @ [WroteHeader code]"
  "Request (WriteHeader code c) = Request c"
  by (simp_all add: WriteHeader_def)

lemma Write_simps [simp]:
  "hdr (Writer (Write b c)) = hdr (Writer c)"
  "status (Writer (Write b c)) = status (Writer c)"
  "body (Writer (Write b c)) = body (Writer c) @ b"
  "trace (Write b c) = trace c @ [WroteBody b]"
  "Request (Write b c) = Request c"
  by (simp_all add: Write_def)

lemma emit_simps [simp]:
  "Writer (emit e c) = Writer c"
  "trace (emit e c) = trace c @ [e]"
  "Request (emit e c) = Request c"
  by (simp_all add: emit_def)

lemma appendPath_simps [simp]:
  "Writer (appendPath t c) = Writer c"
  "trace (appendPath t c) = trace c"
  "Path (url (Request (appendPath t c))) = Path (url (Request c)) @ t"
  "RawQuery (url (Request (appendPath t c))) = RawQuery (url (Request c))"
  by (simp_all add: appendPath_def)

lemma newContext_simps [simp]:
  "Request (newContext r) = r"
  "hdr (Writer (newContext r)) = Map.empty"
  "status (Writer (newContext r)) = None"
  "body (Writer (newContext r)) = []"
  "trace (newContext r) = []"
  by (simp_all add: newContext_def)

lemma corsHeaders_simps [simp]:
  "hdr (Writer (corsHeaders s c)) =
     (hdr (Writer c))(''Access-Control-Allow-Origin'' \<mapsto> [allowOrigin s],
                      ''Access-Control-Allow-Credentials'' \<mapsto> [''true''])"
  "status (Writer (corsHeaders s c)) = status (Writer c)"
  "body (Writer (corsHeaders s c)) = body (Writer c)"
  "trace (corsHeaders s c) = trace c"
  "Request (corsHeaders s c) = Request c"
  by (simp_all add: corsHeaders_def)

lemmas status_defs = StatusOK_def StatusCreated_def StatusNoContent_def
  StatusMovedPermanently_def StatusBadRequest_def StatusUnauthorized_def StatusNotFound_def
  StatusMethodNotAllowed_def StatusInternalServerError_def

lemmas method_defs = MethodGet_def MethodHead_def MethodPost_def MethodPut_def MethodPatch_def
  MethodDelete_def MethodOptions_def

section \<open>The URL patterns, characterised\<close>

text \<open>
  What a match of the two patterns says about the path, and that every path of the form
  \<open>/<name>/whip\<close> or \<open>/<name>/whep\<close>, with a name that is not empty and has no line
  feed, matches the first pattern with that name.
\<close>

lemma matchNoID_sound:
  "matchNoID acc cs = Some (g, k) \<Longrightarrow>
     \<exists>r. g = acc @ r \<and> r \<noteq> [] \<and> LF \<notin> set r \<and> cs = r @ ''/'' @ k \<and> (k = ''whip'' \<or> k = ''whep'')"
proof (induction cs arbitrary: acc)
  case Nil
  then show ?case by simp
next
  case (Cons c cs)
  show ?case
  proof (cases "cs = ''/whip'' \<or> cs = ''/whep''")
    case True
    with Cons.prems show ?thesis
      by (auto split: if_splits intro: exI [of _ "[c]"])
  next
    case False
    with Cons.prems have nl: "c \<noteq> LF" and rec: "matchNoID (acc @ [c]) cs = Some (g, k)"
      by (auto split: if_splits)
    from Cons.IH [OF rec] obtain r where
      r: "g = (acc @ [c]) @ r" "r \<noteq> []" "LF \<notin> set r" "cs = r @ ''/'' @ k" "k = ''whip'' \<or> k = ''whep''"
      by blast
    with nl show ?thesis
      by (intro exI [of _ "c # r"]) auto
  qed
qed

lemma reWHIPWHEPNoID_sound:
  assumes "reWHIPWHEPNoID p = Some (g, k)"
  shows "p = ''/'' @ g @ ''/'' @ k \<and> g \<noteq> [] \<and> LF \<notin> set g \<and> (k = ''whip'' \<or> k = ''whep'')"
proof -
  from assms obtain cs where p: "p = CHR ''/'' # cs" and m: "matchNoID [] cs = Some (g, k)"
    by (auto simp: reWHIPWHEPNoID_def split: list.splits if_splits)
  from matchNoID_sound [OF m] p show ?thesis by auto
qed

lemma matchNoID_complete:
  "r \<noteq> [] \<Longrightarrow> LF \<notin> set r \<Longrightarrow> k = ''whip'' \<or> k = ''whep'' \<Longrightarrow>
     matchNoID acc (r @ ''/'' @ k) = Some (acc @ r, k)"
proof (induction r arbitrary: acc)
  case Nil
  then show ?case by simp
next
  case (Cons c r)
  show ?case
  proof (cases "r = []")
    case True
    with Cons.prems show ?thesis by auto
  next
    case False
    have len: "length (r @ ''/'' @ k) \<noteq> 5"
      using False Cons.prems(3) by (cases r) auto
    have ne: "r @ ''/'' @ k \<noteq> ''/whip''" "r @ ''/'' @ k \<noteq> ''/whep''"
    proof -
      show "r @ ''/'' @ k \<noteq> ''/whip''"
      proof
        assume "r @ ''/'' @ k = ''/whip''"
        then have "length (r @ ''/'' @ k) = length ''/whip''" by (rule arg_cong)
        with len show False by simp
      qed
      show "r @ ''/'' @ k \<noteq> ''/whep''"
      proof
        assume "r @ ''/'' @ k = ''/whep''"
        then have "length (r @ ''/'' @ k) = length ''/whep''" by (rule arg_cong)
        with len show False by simp
      qed
    qed
    from Cons.prems have "matchNoID (acc @ [c]) (r @ ''/'' @ k) = Some ((acc @ [c]) @ r, k)"
      using False by (intro Cons.IH) auto
    with ne Cons.prems show ?thesis by auto
  qed
qed

lemma reWHIPWHEPNoID_complete:
  "g \<noteq> [] \<Longrightarrow> LF \<notin> set g \<Longrightarrow> k = ''whip'' \<or> k = ''whep'' \<Longrightarrow>
     reWHIPWHEPNoID (''/'' @ g @ ''/'' @ k) = Some (g, k)"
  using matchNoID_complete [of g k "[]"] by (simp add: reWHIPWHEPNoID_def)

lemma stripPrefix_Some: "stripPrefix ps cs = Some r \<longleftrightarrow> cs = ps @ r"
  by (induction ps cs rule: stripPrefix.induct) auto

lemma matchKindID_sound:
  assumes "matchKindID cs = Some (k, i)"
  shows "cs = ''/'' @ k @ ''/'' @ i \<and> i \<noteq> [] \<and> LF \<notin> set i \<and> (k = ''whip'' \<or> k = ''whep'')"
proof -
  from assms consider
      (whip) "k = ''whip''" "stripPrefix ''/whip/'' cs = Some i" "i \<noteq> []" "LF \<notin> set i"
    | (whep) "k = ''whep''" "stripPrefix ''/whep/'' cs = Some i" "i \<noteq> []" "LF \<notin> set i"
    unfolding matchKindID_def lastGroup_def
    by (auto split: option.splits if_splits Option.bind_splits)
  then show ?thesis
  proof cases
    case whip
    from whip(2) have "cs = ''/whip/'' @ i" by (simp only: stripPrefix_Some)
    with whip show ?thesis by simp
  next
    case whep
    from whep(2) have "cs = ''/whep/'' @ i" by (simp only: stripPrefix_Some)
    with whep show ?thesis by simp
  qed
qed

lemma matchWithID_sound:
  "matchWithID acc cs = Some (g, k, i) \<Longrightarrow>
     \<exists>r. g = acc @ r \<and> r \<noteq> [] \<and> LF \<notin> set r \<and> cs = r @ ''/'' @ k @ ''/'' @ i \<and>
         i \<noteq> [] \<and> LF \<notin> set i \<and> (k = ''whip'' \<or> k = ''whep'')"
proof (induction cs arbitrary: acc)
  case Nil
  then show ?case by simp
next
  case (Cons c cs)
  from Cons.prems have nl: "c \<noteq> LF" by (auto split: if_splits)
  show ?case
  proof (cases "matchKindID cs")
    case None
    with Cons.prems nl have rec: "matchWithID (acc @ [c]) cs = Some (g, k, i)" by simp
    from Cons.IH [OF rec] obtain r where
      "g = (acc @ [c]) @ r" "r \<noteq> []" "LF \<notin> set r" "cs = r @ ''/'' @ k @ ''/'' @ i"
      "i \<noteq> []" "LF \<notin> set i" "k = ''whip'' \<or> k = ''whep''"
      by blast
    with nl show ?thesis by (intro exI [of _ "c # r"]) auto
  next
    case (Some ki)
    with Cons.prems nl have g: "g = acc @ [c]" and ki: "ki = (k, i)"
      by (auto split: prod.splits)
    from matchKindID_sound [of cs k i] Some ki nl g show ?thesis
      by (intro exI [of _ "[c]"]) auto
  qed
qed

lemma reWHIPWHEPWithID_sound:
  assumes "reWHIPWHEPWithID p = Some (g, k, i)"
  shows "p = ''/'' @ g @ ''/'' @ k @ ''/'' @ i \<and> g \<noteq> [] \<and> LF \<notin> set g \<and>
         i \<noteq> [] \<and> LF \<notin> set i \<and> (k = ''whip'' \<or> k = ''whep'')"
proof -
  from assms obtain cs where p: "p = CHR ''/'' # cs" and m: "matchWithID [] cs = Some (g, k, i)"
    by (auto simp: reWHIPWHEPWithID_def split: list.splits if_splits)
  from matchWithID_sound [OF m] p show ?thesis by auto
qed

section \<open>The dispatch of \<open>onRequest\<close>\<close>

text \<open>
  Which handler a request reaches. The order is that of the source: the preflight test,
  then the endpoint pattern, then the pattern of the session URLs, then the static
  resources. A path can have the form of a later block and be taken by an earlier one
  (\<open>/x/whip/whip\<close>, \<open>/cam1/whip/publish\<close>), so the lemmas say which patterns the
  path matches.
\<close>

lemma onRequest_preflight:
  assumes "Method (Request ctx) = ''OPTIONS''"
    and "Header_Get (ReqHeader (Request ctx)) ''Access-Control-Request-Method'' \<noteq> []"
  shows "onRequest x s ctx = Inr (preflightRequest (corsHeaders s ctx))"
  using assms by (simp add: onRequest_def outsideSession_def insideSession_def Let_def method_defs)

lemma onRequest_options:
  assumes "Method (Request ctx) = ''OPTIONS''"
    and "Header_Get (ReqHeader (Request ctx)) ''Access-Control-Request-Method'' = []"
    and "reWHIPWHEPNoID (Path (url (Request ctx))) = Some (m1, m2)"
  shows "onRequest x s ctx = Inr (onWHIPOptions x s (corsHeaders s ctx) m1 (m2 = ''whip''))"
  using assms by (simp add: onRequest_def outsideSession_def insideSession_def Let_def method_defs)

lemma onRequest_post:
  assumes "Method (Request ctx) = ''POST''"
    and "reWHIPWHEPNoID (Path (url (Request ctx))) = Some (m1, m2)"
  shows "onRequest x s ctx = Inr (onWHIPPost x s (corsHeaders s ctx) m1 (m2 = ''whip''))"
  using assms by (simp add: onRequest_def outsideSession_def insideSession_def Let_def method_defs)

lemma onRequest_not_allowed:
  assumes "Method (Request ctx) = ''GET'' \<or> Method (Request ctx) = ''HEAD'' \<or> Method (Request ctx) = ''PUT''"
    and "reWHIPWHEPNoID (Path (url (Request ctx))) = Some (m1, m2)"
  shows "onRequest x s ctx = Inr (WriteHeader StatusMethodNotAllowed (corsHeaders s ctx))"
  using assms by (auto simp add: onRequest_def outsideSession_def Let_def method_defs)



lemma onRequest_session_other:
  assumes "Method (Request ctx) \<noteq> ''PATCH''" "Method (Request ctx) \<noteq> ''DELETE''"
    and "Method (Request ctx) \<noteq> ''OPTIONS''"
    and "reWHIPWHEPNoID (Path (url (Request ctx))) = None"
    and "reWHIPWHEPWithID (Path (url (Request ctx))) = Some (m1, m2, m3)"
  shows "onRequest x s ctx = Inr (corsHeaders s ctx)"
  using assms by (simp add: onRequest_def outsideSession_def insideSession_def Let_def method_defs)


lemma onRequest_redirect:
  assumes "Method (Request ctx) = ''GET''"
    and "reWHIPWHEPNoID (Path (url (Request ctx))) = None"
    and "reWHIPWHEPWithID (Path (url (Request ctx))) = None"
    and "Path (url (Request ctx)) \<noteq> ''/favicon.ico''"
    and "3 \<le> length (Path (url (Request ctx)))"
    and "\<not> HasSuffix (Path (url (Request ctx))) ''/publish''"
    and "Path (url (Request ctx)) ! (length (Path (url (Request ctx))) - 1) \<noteq> CHR ''/''"
  shows "onRequest x s ctx =
     Inr (WriteHeader StatusMovedPermanently
           (Header_Set ''Location''
              (relativeLocation (url (Request (appendPath ''/'' (corsHeaders s ctx)))))
              (appendPath ''/'' (corsHeaders s ctx))))"
  using assms by (simp add: onRequest_def staticResources_def Let_def method_defs)




text \<open>
  The slice \<open>Path[1 : len(Path)-len("/publish")]\<close> is out of range for the one path that
  ends in \<open>/publish\<close> and has nothing before it: a GET to \<open>/publish\<close> makes
  \<open>onRequest\<close> panic, after the two headers are set and before anything is written.
\<close>

lemma onRequest_publish_panics:
  assumes "Method (Request ctx) = ''GET''"
    and "Path (url (Request ctx)) = ''/publish''"
  shows "onRequest x s ctx = Inl SliceBoundsOutOfRange"
proof -
  have "reWHIPWHEPNoID ''/publish'' = None" "reWHIPWHEPWithID ''/publish'' = None"
    by (simp_all add: reWHIPWHEPNoID_def reWHIPWHEPWithID_def matchKindID_def lastGroup_def LF_def)
  with assms show ?thesis
    by (simp add: onRequest_def staticResources_def Let_def method_defs HasSuffix_def slice_def)
qed

section \<open>The two headers of every response\<close>

text \<open>No handler touches the two headers that \<open>corsHeaders\<close> sets.\<close>

lemma checkAuthOutsideSession_cors:
  assumes "checkAuthOutsideSession x s ctx path publish = (ok, c)"
    and "k = ''Access-Control-Allow-Origin'' \<or> k = ''Access-Control-Allow-Credentials''"
  shows "hdr (Writer c) k = hdr (Writer ctx) k"
  using assms
  by (auto simp: checkAuthOutsideSession_def Let_def
      split: option.splits confError.splits prod.splits if_splits)

lemma onWHIPOptions_cors:
  assumes "k = ''Access-Control-Allow-Origin'' \<or> k = ''Access-Control-Allow-Credentials''"
  shows "hdr (Writer (onWHIPOptions x s ctx path publish)) k = hdr (Writer ctx) k"
proof -
  obtain ok c where chk: "checkAuthOutsideSession x s ctx path publish = (ok, c)"
    by (cases "checkAuthOutsideSession x s ctx path publish")
  from checkAuthOutsideSession_cors [OF chk assms] assms show ?thesis
    by (auto simp: onWHIPOptions_def chk Let_def split: sum.splits)
qed

lemma onWHIPPost_cors:
  assumes "k = ''Access-Control-Allow-Origin'' \<or> k = ''Access-Control-Allow-Credentials''"
  shows "hdr (Writer (onWHIPPost x s ctx path publish)) k = hdr (Writer ctx) k"
  using assms by (auto simp: onWHIPPost_def Let_def split: sum.splits option.splits)

lemma onWHIPPatch_cors:
  assumes "k = ''Access-Control-Allow-Origin'' \<or> k = ''Access-Control-Allow-Credentials''"
  shows "hdr (Writer (onWHIPPatch x s ctx rawSecret)) k = hdr (Writer ctx) k"
  using assms by (auto simp: onWHIPPatch_def Let_def split: option.splits)

lemma onWHIPDelete_cors:
  assumes "k = ''Access-Control-Allow-Origin'' \<or> k = ''Access-Control-Allow-Credentials''"
  shows "hdr (Writer (onWHIPDelete x s ctx rawSecret)) k = hdr (Writer ctx) k"
  using assms by (auto simp: onWHIPDelete_def Let_def split: option.splits)

lemma onPage_cors:
  assumes "k = ''Access-Control-Allow-Origin'' \<or> k = ''Access-Control-Allow-Credentials''"
  shows "hdr (Writer (onPage x s ctx path publish)) k = hdr (Writer ctx) k"
proof -
  obtain ok c where chk: "checkAuthOutsideSession x s ctx path publish = (ok, c)"
    by (cases "checkAuthOutsideSession x s ctx path publish")
  from checkAuthOutsideSession_cors [OF chk assms] assms show ?thesis
    by (auto simp: onPage_def chk Let_def)
qed



lemma preflightRequest_cors:
  assumes "k = ''Access-Control-Allow-Origin'' \<or> k = ''Access-Control-Allow-Credentials''"
  shows "hdr (Writer (preflightRequest ctx)) k = hdr (Writer ctx) k"
  using assms by (auto simp: preflightRequest_def Let_def)

lemma outsideSession_cors:
  assumes "k = ''Access-Control-Allow-Origin'' \<or> k = ''Access-Control-Allow-Credentials''"
  shows "hdr (Writer (outsideSession x s ctx m1 m2)) k = hdr (Writer ctx) k"
  by (simp add: outsideSession_def Let_def onWHIPOptions_cors [OF assms] onWHIPPost_cors [OF assms])

lemma insideSession_cors:
  assumes "k = ''Access-Control-Allow-Origin'' \<or> k = ''Access-Control-Allow-Credentials''"
  shows "hdr (Writer (insideSession x s ctx m3)) k = hdr (Writer ctx) k"
  by (simp add: insideSession_def Let_def onWHIPPatch_cors [OF assms] onWHIPDelete_cors [OF assms])

lemma staticResources_cors:
  assumes "staticResources x s ctx = Inr c"
    and k: "k = ''Access-Control-Allow-Origin'' \<or> k = ''Access-Control-Allow-Credentials''"
  shows "hdr (Writer c) k = hdr (Writer ctx) k"
proof -
  have "case staticResources x s ctx of Inl e \<Rightarrow> True
        | Inr c \<Rightarrow> hdr (Writer c) k = hdr (Writer ctx) k"
    using k by (auto simp: staticResources_def Let_def onPage_cors [OF k] split: option.split)
  with assms(1) show ?thesis by simp
qed

lemma onRequest_cors:
  assumes run: "onRequest x s ctx = Inr c"
    and k: "k = ''Access-Control-Allow-Origin'' \<or> k = ''Access-Control-Allow-Credentials''"
  shows "hdr (Writer c) k = hdr (Writer (corsHeaders s ctx)) k"
proof -
  define ctx' where "ctx' = corsHeaders s ctx"
  note keep = preflightRequest_cors [OF k] outsideSession_cors [OF k] insideSession_cors [OF k]
  have static: "hdr (Writer c) k = hdr (Writer ctx') k" if "staticResources x s ctx' = Inr c"
    using that k by (rule staticResources_cors)
  from run have "hdr (Writer c) k = hdr (Writer ctx') k"
    unfolding onRequest_def Let_def ctx'_def [symmetric]
    by (auto simp: keep static split: if_splits option.splits)
  then show ?thesis by (simp only: ctx'_def)
qed

section \<open>The URL of the session of the concrete server\<close>


section \<open>The authentication check, case by case\<close>

text \<open>The four ways through \<open>checkAuthOutsideSession\<close>, and what \<open>onWHIPOptions\<close> and
  \<open>onPage\<close> do after it.\<close>

lemma checkAuthOutsideSession_ok:
  assumes "getConfForPath (pathManager s) (accessRequest x (Request ctx) path publish) = None"
  shows "checkAuthOutsideSession x s ctx path publish
     = (True, emit (CallGetConfForPath (accessRequest x (Request ctx) path publish)) ctx)"
  using assms by (simp add: checkAuthOutsideSession_def Let_def split: prod.split)

lemma checkAuthOutsideSession_no_credentials:
  assumes "getConfForPath (pathManager s) (accessRequest x (Request ctx) path publish)
             = Some (errAuthentication message)"
    and "BasicAuth (Request ctx) = None"
  shows "checkAuthOutsideSession x s ctx path publish
     = (False, WriteHeader StatusUnauthorized
                (Header_Set ''WWW-Authenticate'' challenge
                  (emit (CallGetConfForPath (accessRequest x (Request ctx) path publish)) ctx)))"
  using assms by (simp add: checkAuthOutsideSession_def credentials_def Let_def)

lemma checkAuthOutsideSession_bad_credentials:
  assumes "getConfForPath (pathManager s) (accessRequest x (Request ctx) path publish)
             = Some (errAuthentication message)"
    and "BasicAuth (Request ctx) \<noteq> None"
  shows "checkAuthOutsideSession x s ctx path publish
     = (False, WriteHeader StatusUnauthorized
                (emit (Sleep (webrtcPauseAfterAuthError x))
                  (emit (LogInfo (clientAddr x (Request ctx)) message)
                    (emit (CallGetConfForPath (accessRequest x (Request ctx) path publish)) ctx))))"
  using assms by (auto simp add: checkAuthOutsideSession_def credentials_def Let_def)


text \<open>When the check fails, the two handlers that call it return what it leaves.\<close>

lemma onWHIPOptions_refused:
  assumes "checkAuthOutsideSession x s ctx path publish = (False, c)"
  shows "onWHIPOptions x s ctx path publish = c"
  using assms by (simp add: onWHIPOptions_def)


lemma onWHIPOptions_admitted:
  assumes "checkAuthOutsideSession x s ctx path publish = (True, c)"
  shows "onWHIPOptions x s ctx path publish =
     (case generateICEServers (parent s) of
        Inl e \<Rightarrow> WriteHeader StatusInternalServerError (emit CallGenerateICEServers c)
      | Inr servers \<Rightarrow>
          WriteHeader StatusNoContent
            (Header_Assign ''Link'' (LinkHeaderMarshal x servers)
              (Header_Set ''Access-Control-Expose-Headers'' ''Link''
                (Header_Set ''Access-Control-Allow-Headers'' ''Authorization, Content-Type, If-Match''
                  (Header_Set ''Access-Control-Allow-Methods'' ''OPTIONS, GET, POST, PATCH, DELETE''
                    (emit CallGenerateICEServers c))))))"
  using assms by (simp add: onWHIPOptions_def Let_def split: sum.split)


lemma paused_append [simp]: "paused (es @ fs) = paused es + paused fs"
  by (induction es rule: paused.induct) simp_all

text \<open>The check begins with the call of the path manager, and so does \<open>onWHIPOptions\<close>.\<close>

lemma checkAuthOutsideSession_trace:
  assumes "checkAuthOutsideSession x s ctx path publish = (ok, c)"
  shows "\<exists>rest. trace c = trace ctx @ CallGetConfForPath (accessRequest x (Request ctx) path publish) # rest"
  using assms
  by (auto simp: checkAuthOutsideSession_def Let_def
      split: option.splits confError.splits prod.splits if_splits)

lemma onWHIPOptions_trace:
  "\<exists>rest. trace (onWHIPOptions x s ctx path publish)
     = trace ctx @ CallGetConfForPath (accessRequest x (Request ctx) path publish) # rest"
proof -
  obtain ok c where chk: "checkAuthOutsideSession x s ctx path publish = (ok, c)"
    by (cases "checkAuthOutsideSession x s ctx path publish")
  from checkAuthOutsideSession_trace [OF chk] obtain rest where
    "trace c = trace ctx @ CallGetConfForPath (accessRequest x (Request ctx) path publish) # rest"
    by blast
  then show ?thesis
    by (cases ok) (auto simp: onWHIPOptions_def chk Let_def split: sum.splits)
qed

lemma demo_endpoint: "reWHIPWHEPNoID ''/cam1/whip'' = Some (''cam1'', ''whip'')"
  by (simp add: reWHIPWHEPNoID_def LF_def)

section \<open>The ways through \<open>onWHIPPost\<close>\<close>

lemma onWHIPPost_unsupported:
  assumes "Header_Get (ReqHeader (Request ctx)) ''Content-Type'' \<noteq> ''application/sdp''"
  shows "onWHIPPost x s ctx path publish = WriteHeader StatusBadRequest ctx"
  using assms by (simp add: onWHIPPost_def)

lemma onWHIPPost_no_servers:
  assumes "Header_Get (ReqHeader (Request ctx)) ''Content-Type'' = ''application/sdp''"
    and "Body (Request ctx) = Some offer"
    and "err (newSession (parent s) (sessionRequest x (Request ctx) path publish offer)) = None"
    and "generateICEServers (parent s) = Inl e"
  shows "onWHIPPost x s ctx path publish =
     WriteHeader StatusInternalServerError
       (emit CallGenerateICEServers
         (emit (CallNewSession (sessionRequest x (Request ctx) path publish offer)) ctx))"
  using assms by (simp add: onWHIPPost_def Let_def)

lemma onWHIPPost_created:
  assumes "Header_Get (ReqHeader (Request ctx)) ''Content-Type'' = ''application/sdp''"
    and "Body (Request ctx) = Some offer"
    and "err (newSession (parent s) (sessionRequest x (Request ctx) path publish offer)) = None"
    and "generateICEServers (parent s) = Inr servers"
    and "res = newSession (parent s) (sessionRequest x (Request ctx) path publish offer)"
    and "c = onWHIPPost x s ctx path publish"
  shows "status (Writer c) = Some 201"
    and "hdr (Writer c) = (hdr (Writer ctx))
           (''Content-Type'' \<mapsto> [''application/sdp''],
            ''Access-Control-Expose-Headers'' \<mapsto> [''ETag, Accept-Patch, Link, Location''],
            ''ETag'' \<mapsto> [''*''],
            ''ID'' \<mapsto> [uuid_String x (sx_uuid (sx res))],
            ''Accept-Patch'' \<mapsto> [''application/trickle-ice-sdpfrag''],
            ''Link'' \<mapsto> LinkHeaderMarshal x servers,
            ''Location'' \<mapsto>
               [Path (url (Request ctx)) @ ''/'' @ uuid_String x (sx_secret (sx res)) @
                (if RawQuery (url (Request ctx)) = [] then []
                 else ''?'' @ RawQuery (url (Request ctx)))])"
    and "body (Writer c) = body (Writer ctx) @ answer res"
    and "trace c = trace ctx @
           [CallNewSession (sessionRequest x (Request ctx) path publish offer),
            CallGenerateICEServers, WroteHeader 201, WroteBody (answer res)]"
  using assms by (simp_all add: onWHIPPost_def Let_def relativeLocation_def status_defs)

section \<open>The claims\<close>

text \<open>
  C1, as stated, fails. The claim: on a WHIP/WHEP request to a path that asks for
  credentials, every credential failure makes the server pause for a fixed time of at
  least one second before it answers 401, and the answers to no credentials and to bad
  credentials differ in the \<open>WWW-Authenticate\<close> header only. On the concrete server,
  whose pause is two seconds, an OPTIONS request to \<open>/cam1/whip\<close> without credentials
  fails the check and is answered 401 with no pause at all: \<open>checkAuthOutsideSession\<close>
  returns the challenge before it reaches the pause.
\<close>

theorem options_without_credentials_no_pause_counterexample:
  "pauseAtLeastOneSecond demoExternals \<and>
   BasicAuth (demoRequest ''OPTIONS'' ''/cam1/whip'') = None \<and>
   getConfForPath (pathManager demoServer)
     (accessRequest demoExternals (demoRequest ''OPTIONS'' ''/cam1/whip'') ''cam1'' True)
     = Some (errAuthentication ''authentication failed'') \<and>
   serve demoExternals demoServer (demoRequest ''OPTIONS'' ''/cam1/whip'')
     = Inr (onWHIPOptions demoExternals demoServer
              (corsHeaders demoServer (newContext (demoRequest ''OPTIONS'' ''/cam1/whip''))) ''cam1'' True) \<and>
   status (Writer (onWHIPOptions demoExternals demoServer
              (corsHeaders demoServer (newContext (demoRequest ''OPTIONS'' ''/cam1/whip''))) ''cam1'' True))
     = Some 401 \<and>
   paused (trace (onWHIPOptions demoExternals demoServer
              (corsHeaders demoServer (newContext (demoRequest ''OPTIONS'' ''/cam1/whip''))) ''cam1'' True))
     = 0"
proof -
  let ?r = "demoRequest ''OPTIONS'' ''/cam1/whip''"
  let ?ctx = "corsHeaders demoServer (newContext ?r)"
  have conf: "getConfForPath (pathManager demoServer) (accessRequest demoExternals ?r ''cam1'' True)
      = Some (errAuthentication ''authentication failed'')"
    by (simp add: demoServer_def demoPathManager_def accessRequest_def credentials_def
        demoRequest_def)
  have none: "BasicAuth ?r = None" by (simp add: demoRequest_def)
  have run: "onRequest demoExternals demoServer (newContext ?r)
      = Inr (onWHIPOptions demoExternals demoServer ?ctx ''cam1'' (''whip'' = ''whip''))"
    by (rule onRequest_options)
       (simp_all add: demoRequest_def Header_Get_def reWHIPWHEPNoID_def LF_def)
  have "checkAuthOutsideSession demoExternals demoServer ?ctx ''cam1'' True
      = (False, WriteHeader StatusUnauthorized
                 (Header_Set ''WWW-Authenticate'' challenge
                   (emit (CallGetConfForPath (accessRequest demoExternals (Request ?ctx) ''cam1'' True)) ?ctx)))"
    by (rule checkAuthOutsideSession_no_credentials [where message = "''authentication failed''"])
       (simp_all add: conf none)
  then have "onWHIPOptions demoExternals demoServer ?ctx ''cam1'' True
      = WriteHeader StatusUnauthorized
          (Header_Set ''WWW-Authenticate'' challenge
            (emit (CallGetConfForPath (accessRequest demoExternals (Request ?ctx) ''cam1'' True)) ?ctx))"
    by (rule onWHIPOptions_refused)
  then have out: "status (Writer (onWHIPOptions demoExternals demoServer ?ctx ''cam1'' True)) = Some 401"
    "paused (trace (onWHIPOptions demoExternals demoServer ?ctx ''cam1'' True)) = 0"
    by (simp_all add: status_defs)
  have "pauseAtLeastOneSecond demoExternals"
    by (simp add: pauseAtLeastOneSecond_def demoExternals_def Second_def)
  with conf none run out show ?thesis by (simp add: serve_def)
qed

text \<open>
  C1, amended. An OPTIONS request to a WHIP/WHEP endpoint that is no preflight and fails
  the authentication of the path is answered 401 with an empty body. When it carries
  credentials, the server first logs the failure and pauses for the fixed time
  \<open>webrtcPauseAfterAuthError\<close>, at least one second when the constant is, and the
  answer has no \<open>WWW-Authenticate\<close> header. When it carries none, the server does not
  pause, and the answer has the header \<^verbatim>\<open>WWW-Authenticate: Basic realm="mediamtx"\<close>.
  The two answers differ in nothing else. (A POST is authenticated by the session
  coordinator, whose status code \<open>onWHIPPost\<close> passes on; the theorem says nothing
  of it.)
\<close>

theorem options_authentication_failure:
  assumes "Method r = ''OPTIONS''"
    and "Header_Get (ReqHeader r) ''Access-Control-Request-Method'' = []"
    and "Path (url r) = ''/'' @ name @ ''/'' @ kind"
    and "kind = ''whip'' \<or> kind = ''whep''" and "name \<noteq> []" and "LF \<notin> set name"
    and "getConfForPath (pathManager s) (accessRequest x r name (kind = ''whip''))
           = Some (errAuthentication message)"
  shows "\<exists>c. serve x s r = Inr c \<and>
     status (Writer c) = Some 401 \<and>
     body (Writer c) = [] \<and>
     (\<forall>k. k \<noteq> ''WWW-Authenticate'' \<longrightarrow>
        hdr (Writer c) k = hdr (Writer (corsHeaders s (newContext r))) k) \<and>
     (BasicAuth r = None \<longrightarrow>
        hdr (Writer c) ''WWW-Authenticate'' = Some [challenge] \<and>
        trace c = [CallGetConfForPath (accessRequest x r name (kind = ''whip'')),
                   WroteHeader 401] \<and>
        paused (trace c) = 0) \<and>
     (BasicAuth r \<noteq> None \<longrightarrow>
        hdr (Writer c) ''WWW-Authenticate'' = None \<and>
        trace c = [CallGetConfForPath (accessRequest x r name (kind = ''whip'')),
                   LogInfo (clientAddr x r) message,
                   Sleep (webrtcPauseAfterAuthError x),
                   WroteHeader 401] \<and>
        paused (trace c) = webrtcPauseAfterAuthError x \<and>
        (pauseAtLeastOneSecond x \<longrightarrow> Second \<le> paused (trace c)))"
proof -
  let ?ctx = "corsHeaders s (newContext r)"
  let ?pub = "kind = ''whip''"
  have "reWHIPWHEPNoID (''/'' @ name @ ''/'' @ kind) = Some (name, kind)"
    using assms(5,6,4) by (rule reWHIPWHEPNoID_complete)
  with assms(3) have m: "reWHIPWHEPNoID (Path (url (Request (newContext r)))) = Some (name, kind)"
    by simp
  have run: "serve x s r = Inr (onWHIPOptions x s ?ctx name ?pub)"
    unfolding serve_def using _ _ m by (rule onRequest_options) (simp_all add: assms(1,2))
  have conf: "getConfForPath (pathManager s) (accessRequest x (Request ?ctx) name ?pub)
      = Some (errAuthentication message)"
    using assms(7) by simp
  show ?thesis
  proof (cases "BasicAuth r = None")
    case True
    then have "BasicAuth (Request ?ctx) = None" by simp
    with conf have "checkAuthOutsideSession x s ?ctx name ?pub
        = (False, WriteHeader StatusUnauthorized
                   (Header_Set ''WWW-Authenticate'' challenge
                     (emit (CallGetConfForPath (accessRequest x (Request ?ctx) name ?pub)) ?ctx)))"
      by (rule checkAuthOutsideSession_no_credentials)
    then have "onWHIPOptions x s ?ctx name ?pub
        = WriteHeader StatusUnauthorized
            (Header_Set ''WWW-Authenticate'' challenge
              (emit (CallGetConfForPath (accessRequest x (Request ?ctx) name ?pub)) ?ctx))"
      by (rule onWHIPOptions_refused)
    with run True show ?thesis by (simp add: status_defs)
  next
    case False
    then have "BasicAuth (Request ?ctx) \<noteq> None" by simp
    with conf have "checkAuthOutsideSession x s ?ctx name ?pub
        = (False, WriteHeader StatusUnauthorized
                   (emit (Sleep (webrtcPauseAfterAuthError x))
                     (emit (LogInfo (clientAddr x (Request ?ctx)) message)
                       (emit (CallGetConfForPath (accessRequest x (Request ?ctx) name ?pub)) ?ctx))))"
      by (rule checkAuthOutsideSession_bad_credentials)
    then have "onWHIPOptions x s ?ctx name ?pub
        = WriteHeader StatusUnauthorized
            (emit (Sleep (webrtcPauseAfterAuthError x))
              (emit (LogInfo (clientAddr x (Request ?ctx)) message)
                (emit (CallGetConfForPath (accessRequest x (Request ?ctx) name ?pub)) ?ctx)))"
      by (rule onWHIPOptions_refused)
    with run False show ?thesis by (simp add: status_defs pauseAtLeastOneSecond_def)
  qed
qed

text \<open>A wrong password for \<open>admin\<close> on the concrete server: 401 after two seconds.\<close>

theorem options_authentication_failure_witness:
  "getConfForPath (pathManager demoServer)
     (accessRequest demoExternals
        ((demoRequest ''OPTIONS'' ''/cam1/whip'')\<lparr>BasicAuth := Some (''admin'', ''guess'')\<rparr>)
        ''cam1'' True)
     = Some (errAuthentication ''authentication failed'') \<and>
   pauseAtLeastOneSecond demoExternals \<and>
   (\<exists>c. serve demoExternals demoServer
          ((demoRequest ''OPTIONS'' ''/cam1/whip'')\<lparr>BasicAuth := Some (''admin'', ''guess'')\<rparr>) = Inr c \<and>
        status (Writer c) = Some 401 \<and>
        hdr (Writer c) ''WWW-Authenticate'' = None \<and>
        paused (trace c) = 2 * Second)"
proof -
  let ?r = "(demoRequest ''OPTIONS'' ''/cam1/whip'')\<lparr>BasicAuth := Some (''admin'', ''guess'')\<rparr>"
  have conf: "getConfForPath (pathManager demoServer) (accessRequest demoExternals ?r ''cam1'' (''whip'' = ''whip''))
      = Some (errAuthentication ''authentication failed'')"
    by (simp add: demoServer_def demoPathManager_def accessRequest_def credentials_def
        demoRequest_def)
  have p: "pauseAtLeastOneSecond demoExternals"
    by (simp add: pauseAtLeastOneSecond_def demoExternals_def Second_def)
  have "\<exists>c. serve demoExternals demoServer ?r = Inr c \<and> status (Writer c) = Some 401 \<and>
        hdr (Writer c) ''WWW-Authenticate'' = None \<and> paused (trace c) = 2 * Second"
    using options_authentication_failure [of ?r "''cam1''" "''whip''" demoServer demoExternals
        "''authentication failed''", OF _ _ _ _ _ _ conf]
    by (auto simp add: demoRequest_def Header_Get_def LF_def demoExternals_def)
  with conf p show ?thesis by simp
qed

text \<open>
  C2, as stated, fails, in two places. The claim: a POST of an SDP offer to a WHIP/WHEP
  endpoint that the coordinator accepts is answered 201 with the answer as its body and
  with \<open>Content-Type\<close>, \<open>ETag\<close>, \<open>Accept-Patch\<close> and the \<open>Location\<close>
  \<open>/<path>/whip/<secret>\<close> of the new session; a POST of another media type is answered
  400 and creates no session. First, when the coordinator has accepted the offer and then
  cannot produce its list of ICE servers, the answer is 500. Second, \<open>Location\<close> is
  \<open>relativeLocation\<close> of the request's URL, so the query of the request follows the
  secret: the offer posted to \<open>/cam1/whip?token=1\<close> gets a \<open>Location\<close> that ends in
  \<open>?token=1\<close>.
\<close>

theorem post_ice_failure_and_query_counterexample:
  "err (newSession (parent demoServerNoICE)
         (sessionRequest demoExternals (demoPost []) ''cam1'' True ''v=0 offer'')) = None \<and>
   serve demoExternals demoServerNoICE (demoPost [])
     = Inr (onWHIPPost demoExternals demoServerNoICE
             (corsHeaders demoServerNoICE (newContext (demoPost []))) ''cam1'' True) \<and>
   status (Writer (onWHIPPost demoExternals demoServerNoICE
             (corsHeaders demoServerNoICE (newContext (demoPost []))) ''cam1'' True)) = Some 500 \<and>
   serve demoExternals demoServer (demoPost ''token=1'')
     = Inr (onWHIPPost demoExternals demoServer
             (corsHeaders demoServer (newContext (demoPost ''token=1''))) ''cam1'' True) \<and>
   status (Writer (onWHIPPost demoExternals demoServer
             (corsHeaders demoServer (newContext (demoPost ''token=1''))) ''cam1'' True)) = Some 201 \<and>
   uuid_String demoExternals (sx_secret (sx (newSession (parent demoServer)
         (sessionRequest demoExternals (demoPost ''token=1'') ''cam1'' True ''v=0 offer''))))
     = ''f81d4fae-7dec-11d0-a765-00a0c91e6bf6'' \<and>
   hdr (Writer (onWHIPPost demoExternals demoServer
             (corsHeaders demoServer (newContext (demoPost ''token=1''))) ''cam1'' True)) ''Location''
     = Some [''/cam1/whip/f81d4fae-7dec-11d0-a765-00a0c91e6bf6?token=1'']"
proof -
  let ?n = "corsHeaders demoServerNoICE (newContext (demoPost []))"
  let ?y = "corsHeaders demoServer (newContext (demoPost ''token=1''))"
  have post: "Method (demoPost q) = ''POST''" "Path (url (demoPost q)) = ''/cam1/whip''"
    "RawQuery (url (demoPost q)) = q"
    "Header_Get (ReqHeader (demoPost q)) ''Content-Type'' = ''application/sdp''"
    "Body (demoPost q) = Some ''v=0 offer''" for q
    by (simp_all add: demoPost_def demoAdmin_def demoRequest_def Header_Get_def)
  have ok: "err (newSession (parent srv) (sessionRequest demoExternals (demoPost q) ''cam1'' True ''v=0 offer'')) = None"
    "sx_secret (sx (newSession (parent srv) (sessionRequest demoExternals (demoPost q) ''cam1'' True ''v=0 offer''))) = demoSecret"
    if "srv = demoServer \<or> srv = demoServerNoICE" for srv q
    using that
    by (auto simp add: demoServer_def demoServerNoICE_def demoParent_def sessionRequest_def
        credentials_def demoPost_def demoAdmin_def demoRequest_def)
  have run: "onRequest demoExternals srv (newContext (demoPost q))
      = Inr (onWHIPPost demoExternals srv (corsHeaders srv (newContext (demoPost q))) ''cam1'' (''whip'' = ''whip''))"
    for srv q
    by (rule onRequest_post) (simp_all add: post demo_endpoint)
  have "onWHIPPost demoExternals demoServerNoICE ?n ''cam1'' True =
     WriteHeader StatusInternalServerError
       (emit CallGenerateICEServers
         (emit (CallNewSession (sessionRequest demoExternals (Request ?n) ''cam1'' True ''v=0 offer'')) ?n))"
    by (rule onWHIPPost_no_servers [where e = "''no randomness''"])
       (simp_all add: post ok, simp add: demoServerNoICE_def)
  then have no: "status (Writer (onWHIPPost demoExternals demoServerNoICE ?n ''cam1'' True)) = Some 500"
    by (simp add: status_defs)
  have ice: "generateICEServers (parent demoServer)
      = Inr [\<lparr>URLs = [''stun:stun.example.org:3478''], Username = [], Credential = []\<rparr>]"
    by (simp add: demoServer_def demoParent_def)
  have str: "uuid_String demoExternals demoSecret = ''f81d4fae-7dec-11d0-a765-00a0c91e6bf6''"
    by (simp add: demoExternals_def demoSecretText_def)
  have yes: "status (Writer (onWHIPPost demoExternals demoServer ?y ''cam1'' True)) = Some 201"
    "hdr (Writer (onWHIPPost demoExternals demoServer ?y ''cam1'' True)) ''Location''
      = Some [''/cam1/whip/f81d4fae-7dec-11d0-a765-00a0c91e6bf6?token=1'']"
    using onWHIPPost_created(1,2) [where ctx = ?y and x = demoExternals and s = demoServer
        and path = "''cam1''" and publish = True and offer = "''v=0 offer''", OF _ _ _ ice refl refl]
    by (simp_all add: post ok str)
  show ?thesis
    using run [of demoServerNoICE "[]"] run [of demoServer "''token=1''"] no yes
      ok [of demoServerNoICE "[]"] ok [of demoServer "''token=1''"] str
    by (simp add: serve_def)
qed

text \<open>
  C2, amended. A POST to a WHIP/WHEP endpoint whose Content-Type is not
  \<open>application/sdp\<close> is answered 400, and the coordinator is not called. A POST of
  \<open>application/sdp\<close> whose body is read, whose offer the coordinator accepts and for
  which the coordinator produces its list of ICE servers is answered 201, with
  \<open>Content-Type: application/sdp\<close>, \<open>ETag: *\<close>,
  \<open>Accept-Patch: application/trickle-ice-sdpfrag\<close>, the \<open>Location\<close>
  \<open>/<path>/whip/<secret>\<close> or \<open>/<path>/whep/<secret>\<close> of the new session's secret,
  followed by \<open>?\<close> and the query of the request when there is one, and the SDP answer
  as its body.
\<close>

theorem post_offer_created:
  assumes "Method r = ''POST''"
    and "Path (url r) = ''/'' @ name @ ''/'' @ kind"
    and "kind = ''whip'' \<or> kind = ''whep''" and "name \<noteq> []" and "LF \<notin> set name"
  shows "\<exists>c. serve x s r = Inr c \<and>
     (Header_Get (ReqHeader r) ''Content-Type'' \<noteq> ''application/sdp'' \<longrightarrow>
        status (Writer c) = Some 400 \<and> body (Writer c) = [] \<and> trace c = [WroteHeader 400]) \<and>
     (\<forall>offer servers.
        Header_Get (ReqHeader r) ''Content-Type'' = ''application/sdp'' \<and>
        Body r = Some offer \<and>
        err (newSession (parent s) (sessionRequest x r name (kind = ''whip'') offer)) = None \<and>
        generateICEServers (parent s) = Inr servers \<longrightarrow>
        status (Writer c) = Some 201 \<and>
        hdr (Writer c) ''Content-Type'' = Some [''application/sdp''] \<and>
        hdr (Writer c) ''ETag'' = Some [''*''] \<and>
        hdr (Writer c) ''Accept-Patch'' = Some [''application/trickle-ice-sdpfrag''] \<and>
        hdr (Writer c) ''Location'' =
          Some [''/'' @ name @ ''/'' @ kind @ ''/'' @
                uuid_String x (sx_secret (sx (newSession (parent s)
                  (sessionRequest x r name (kind = ''whip'') offer)))) @
                (if RawQuery (url r) = [] then [] else ''?'' @ RawQuery (url r))] \<and>
        body (Writer c) =
          answer (newSession (parent s) (sessionRequest x r name (kind = ''whip'') offer)) \<and>
        trace c =
          [CallNewSession (sessionRequest x r name (kind = ''whip'') offer),
           CallGenerateICEServers, WroteHeader 201,
           WroteBody (answer (newSession (parent s)
             (sessionRequest x r name (kind = ''whip'') offer)))])"
proof -
  let ?ctx = "corsHeaders s (newContext r)"
  let ?pub = "kind = ''whip''"
  let ?c = "onWHIPPost x s ?ctx name ?pub"
  have "reWHIPWHEPNoID (''/'' @ name @ ''/'' @ kind) = Some (name, kind)"
    using assms(4,5,3) by (rule reWHIPWHEPNoID_complete)
  with assms(2) have m: "reWHIPWHEPNoID (Path (url (Request (newContext r)))) = Some (name, kind)"
    by simp
  have run: "serve x s r = Inr ?c"
    unfolding serve_def using _ m by (rule onRequest_post) (simp add: assms(1))
  have bad: "status (Writer ?c) = Some 400 \<and> body (Writer ?c) = [] \<and> trace ?c = [WroteHeader 400]"
    if "Header_Get (ReqHeader r) ''Content-Type'' \<noteq> ''application/sdp''"
    using that by (simp add: onWHIPPost_unsupported status_defs)
  have good: "status (Writer ?c) = Some 201 \<and>
        hdr (Writer ?c) ''Content-Type'' = Some [''application/sdp''] \<and>
        hdr (Writer ?c) ''ETag'' = Some [''*''] \<and>
        hdr (Writer ?c) ''Accept-Patch'' = Some [''application/trickle-ice-sdpfrag''] \<and>
        hdr (Writer ?c) ''Location'' =
          Some [''/'' @ name @ ''/'' @ kind @ ''/'' @
                uuid_String x (sx_secret (sx (newSession (parent s)
                  (sessionRequest x r name ?pub offer)))) @
                (if RawQuery (url r) = [] then [] else ''?'' @ RawQuery (url r))] \<and>
        body (Writer ?c) = answer (newSession (parent s) (sessionRequest x r name ?pub offer)) \<and>
        trace ?c =
          [CallNewSession (sessionRequest x r name ?pub offer),
           CallGenerateICEServers, WroteHeader 201,
           WroteBody (answer (newSession (parent s) (sessionRequest x r name ?pub offer)))]"
    if "Header_Get (ReqHeader r) ''Content-Type'' = ''application/sdp''"
      and "Body r = Some offer"
      and "err (newSession (parent s) (sessionRequest x r name ?pub offer)) = None"
      and "generateICEServers (parent s) = Inr servers"
    for offer servers
    using onWHIPPost_created [where ctx = ?ctx and x = x and s = s and path = name
        and publish = ?pub and offer = offer and servers = servers, OF _ _ _ that(4) refl refl]
      that(1-3) assms(2)
    by simp
  show ?thesis
    using run bad good by (intro exI [of _ ?c]) blast
qed

text \<open>The offer of the user \<open>admin\<close>, posted to \<open>/cam1/whip?token=1\<close>.\<close>

theorem post_offer_created_witness:
  "err (newSession (parent demoServer)
         (sessionRequest demoExternals (demoPost ''token=1'') ''cam1'' True ''v=0 offer'')) = None \<and>
   (\<exists>c. serve demoExternals demoServer (demoPost ''token=1'') = Inr c \<and>
        status (Writer c) = Some 201 \<and>
        hdr (Writer c) ''ETag'' = Some [''*''] \<and>
        hdr (Writer c) ''Location'' = Some [''/cam1/whip/f81d4fae-7dec-11d0-a765-00a0c91e6bf6?token=1''] \<and>
        body (Writer c) = ''v=0 answer'')"
proof -
  let ?r = "demoPost ''token=1''"
  have post: "Method ?r = ''POST''" "Path (url ?r) = ''/'' @ ''cam1'' @ ''/'' @ ''whip''"
    "RawQuery (url ?r) = ''token=1''"
    "Header_Get (ReqHeader ?r) ''Content-Type'' = ''application/sdp''"
    "Body ?r = Some ''v=0 offer''"
    by (simp_all add: demoPost_def demoAdmin_def demoRequest_def Header_Get_def)
  have res: "newSession (parent demoServer) (sessionRequest demoExternals ?r ''cam1'' True ''v=0 offer'')
      = \<lparr>sx = \<lparr>sx_uuid = demoID, sx_secret = demoSecret\<rparr>, answer = ''v=0 answer'',
         err = None, errStatusCode = 0\<rparr>"
    by (simp add: demoServer_def demoParent_def sessionRequest_def credentials_def demoPost_def
        demoAdmin_def demoRequest_def)
  have ice: "generateICEServers (parent demoServer)
      = Inr [\<lparr>URLs = [''stun:stun.example.org:3478''], Username = [], Credential = []\<rparr>]"
    by (simp add: demoServer_def demoParent_def)
  have str: "uuid_String demoExternals demoSecret = ''f81d4fae-7dec-11d0-a765-00a0c91e6bf6''"
    by (simp add: demoExternals_def demoSecretText_def)
  have "\<exists>c. serve demoExternals demoServer ?r = Inr c \<and>
        status (Writer c) = Some 201 \<and>
        hdr (Writer c) ''ETag'' = Some [''*''] \<and>
        hdr (Writer c) ''Location'' = Some [''/cam1/whip/f81d4fae-7dec-11d0-a765-00a0c91e6bf6?token=1''] \<and>
        body (Writer c) = ''v=0 answer''"
    using post_offer_created [of ?r "''cam1''" "''whip''" demoExternals demoServer, OF post(1,2)]
      post(3-5) res ice str
    by (auto simp add: LF_def)
  with res show ?thesis by simp
qed




text \<open>
  C4, as stated, fails. The claim: an OPTIONS request that carries an
  \<open>Access-Control-Request-Method\<close> header is answered as a preflight, 204 with the
  allowed methods and headers and with no WHIP/WHEP processing, so that the header's
  presence alone tells the two kinds of OPTIONS apart. \<open>onRequest\<close> tests
  \<open>Header.Get(...) != ""\<close>, which is false also for a header that is there with an
  empty value: such a request to \<open>/cam1/whip\<close> is authenticated and answered with the
  \<open>Link\<close> of the ICE servers.
\<close>

theorem options_empty_request_method_counterexample:
  "Method demoEmptyPreflight = ''OPTIONS'' \<and>
   ReqHeader demoEmptyPreflight ''Access-Control-Request-Method'' = Some [[]] \<and>
   serve demoExternals demoServer demoEmptyPreflight
     = Inr (onWHIPOptions demoExternals demoServer
             (corsHeaders demoServer (newContext demoEmptyPreflight)) ''cam1'' True) \<and>
   trace (onWHIPOptions demoExternals demoServer
             (corsHeaders demoServer (newContext demoEmptyPreflight)) ''cam1'' True)
     = [CallGetConfForPath (accessRequest demoExternals demoEmptyPreflight ''cam1'' True),
        CallGenerateICEServers, WroteHeader 204] \<and>
   hdr (Writer (onWHIPOptions demoExternals demoServer
             (corsHeaders demoServer (newContext demoEmptyPreflight)) ''cam1'' True)) ''Link''
     = Some [''<stun:stun.example.org:3478>; rel=ice-server'']"
proof -
  let ?r = demoEmptyPreflight
  let ?ctx = "corsHeaders demoServer (newContext ?r)"
  have get: "Header_Get (ReqHeader ?r) ''Access-Control-Request-Method'' = []"
    by (simp add: demoEmptyPreflight_def Header_Get_def)
  have conf: "getConfForPath (pathManager demoServer) (accessRequest demoExternals ?r ''cam1'' True) = None"
    by (simp add: demoServer_def demoPathManager_def accessRequest_def credentials_def
        demoEmptyPreflight_def demoAdmin_def demoRequest_def)
  have run: "onRequest demoExternals demoServer (newContext ?r)
      = Inr (onWHIPOptions demoExternals demoServer ?ctx ''cam1'' (''whip'' = ''whip''))"
    by (rule onRequest_options)
       (simp_all add: get, simp_all add: demoEmptyPreflight_def demoAdmin_def demoRequest_def demo_endpoint)
  have "checkAuthOutsideSession demoExternals demoServer ?ctx ''cam1'' True
      = (True, emit (CallGetConfForPath (accessRequest demoExternals (Request ?ctx) ''cam1'' True)) ?ctx)"
    by (rule checkAuthOutsideSession_ok) (simp add: conf)
  from onWHIPOptions_admitted [OF this]
  have out: "trace (onWHIPOptions demoExternals demoServer ?ctx ''cam1'' True)
      = [CallGetConfForPath (accessRequest demoExternals ?r ''cam1'' True),
         CallGenerateICEServers, WroteHeader 204]"
    "hdr (Writer (onWHIPOptions demoExternals demoServer ?ctx ''cam1'' True)) ''Link''
      = Some [''<stun:stun.example.org:3478>; rel=ice-server'']"
    by (simp_all add: demoServer_def demoParent_def demoExternals_def status_defs)
  have "Method ?r = ''OPTIONS''" "ReqHeader ?r ''Access-Control-Request-Method'' = Some [[]]"
    by (simp_all add: demoEmptyPreflight_def demoAdmin_def demoRequest_def)
  with run out show ?thesis by (simp add: serve_def)
qed

text \<open>
  C4, amended. An OPTIONS request whose \<open>Access-Control-Request-Method\<close> header has a
  value that is not empty is answered as a preflight, whatever its path: 204 with
  \<open>Access-Control-Allow-Methods\<close> and \<open>Access-Control-Allow-Headers\<close>, no \<open>Link\<close>, no
  body, and no call of the path manager or of the coordinator. An OPTIONS request to a
  WHIP/WHEP endpoint whose header is absent or empty is handled by \<open>onWHIPOptions\<close>,
  which begins with the authentication. So the two are told apart exactly by whether the
  header has a value that is not empty.
\<close>

theorem preflight_by_request_method:
  assumes "Method r = ''OPTIONS''"
  shows "(Header_Get (ReqHeader r) ''Access-Control-Request-Method'' \<noteq> [] \<longrightarrow>
           (\<exists>c. serve x s r = Inr c \<and>
                status (Writer c) = Some 204 \<and>
                hdr (Writer c) ''Access-Control-Allow-Methods''
                  = Some [''OPTIONS, GET, POST, PATCH, DELETE''] \<and>
                hdr (Writer c) ''Access-Control-Allow-Headers''
                  = Some [''Authorization, Content-Type, If-Match''] \<and>
                hdr (Writer c) ''Link'' = None \<and>
                body (Writer c) = [] \<and>
                trace c = [WroteHeader 204])) \<and>
         (Header_Get (ReqHeader r) ''Access-Control-Request-Method'' = [] \<longrightarrow>
           (\<forall>name kind. reWHIPWHEPNoID (Path (url r)) = Some (name, kind) \<longrightarrow>
              (\<exists>c. serve x s r = Inr c \<and>
                   c = onWHIPOptions x s (corsHeaders s (newContext r)) name (kind = ''whip'') \<and>
                   hd (trace c) = CallGetConfForPath (accessRequest x r name (kind = ''whip'')) \<and>
                   trace c \<noteq> [WroteHeader 204])))"
proof (intro conjI impI allI)
  assume "Header_Get (ReqHeader r) ''Access-Control-Request-Method'' \<noteq> []"
  with assms have "serve x s r = Inr (preflightRequest (corsHeaders s (newContext r)))"
    unfolding serve_def by (intro onRequest_preflight) simp_all
  then show "\<exists>c. serve x s r = Inr c \<and>
                status (Writer c) = Some 204 \<and>
                hdr (Writer c) ''Access-Control-Allow-Methods''
                  = Some [''OPTIONS, GET, POST, PATCH, DELETE''] \<and>
                hdr (Writer c) ''Access-Control-Allow-Headers''
                  = Some [''Authorization, Content-Type, If-Match''] \<and>
                hdr (Writer c) ''Link'' = None \<and>
                body (Writer c) = [] \<and>
                trace c = [WroteHeader 204]"
    by (simp add: preflightRequest_def Let_def status_defs)
next
  fix name kind
  let ?c = "onWHIPOptions x s (corsHeaders s (newContext r)) name (kind = ''whip'')"
  assume get: "Header_Get (ReqHeader r) ''Access-Control-Request-Method'' = []"
    and m: "reWHIPWHEPNoID (Path (url r)) = Some (name, kind)"
  have run: "serve x s r = Inr ?c"
    unfolding serve_def by (rule onRequest_options) (simp_all add: assms get m)
  from onWHIPOptions_trace [of x s "corsHeaders s (newContext r)" name "kind = ''whip''"]
  obtain rest where "trace ?c = CallGetConfForPath (accessRequest x r name (kind = ''whip'')) # rest"
    by auto
  then have "hd (trace ?c) = CallGetConfForPath (accessRequest x r name (kind = ''whip''))"
    "trace ?c \<noteq> [WroteHeader 204]"
    by simp_all
  with run show "\<exists>c. serve x s r = Inr c \<and> c = ?c \<and>
      hd (trace c) = CallGetConfForPath (accessRequest x r name (kind = ''whip'')) \<and>
      trace c \<noteq> [WroteHeader 204]"
    by simp
qed

text \<open>The preflight of a POST, and the plain OPTIONS request, both to \<open>/cam1/whip\<close>.\<close>

theorem preflight_by_request_method_witness:
  "Header_Get (ReqHeader ((demoRequest ''OPTIONS'' ''/cam1/whip'')
       \<lparr>ReqHeader := [''Access-Control-Request-Method'' \<mapsto> [''POST'']]\<rparr>))
     ''Access-Control-Request-Method'' = ''POST'' \<and>
   (\<exists>c. serve demoExternals demoServer
          ((demoRequest ''OPTIONS'' ''/cam1/whip'')
             \<lparr>ReqHeader := [''Access-Control-Request-Method'' \<mapsto> [''POST'']]\<rparr>) = Inr c \<and>
        status (Writer c) = Some 204 \<and> trace c = [WroteHeader 204]) \<and>
   (\<exists>c. serve demoExternals demoServer (demoRequest ''OPTIONS'' ''/cam1/whip'') = Inr c \<and>
        hd (trace c) = CallGetConfForPath
          (accessRequest demoExternals (demoRequest ''OPTIONS'' ''/cam1/whip'') ''cam1'' True))"
proof -
  let ?r = "(demoRequest ''OPTIONS'' ''/cam1/whip'')
       \<lparr>ReqHeader := [''Access-Control-Request-Method'' \<mapsto> [''POST'']]\<rparr>"
  let ?q = "demoRequest ''OPTIONS'' ''/cam1/whip''"
  have get: "Header_Get (ReqHeader ?r) ''Access-Control-Request-Method'' = ''POST''"
    by (simp add: Header_Get_def)
  have first: "\<exists>c. serve demoExternals demoServer ?r = Inr c \<and>
        status (Writer c) = Some 204 \<and> trace c = [WroteHeader 204]"
    using preflight_by_request_method [of ?r demoExternals demoServer] get
    by (auto simp add: demoRequest_def)
  have "Header_Get (ReqHeader ?q) ''Access-Control-Request-Method'' = []"
    by (simp add: demoRequest_def Header_Get_def)
  moreover have "reWHIPWHEPNoID (Path (url ?q)) = Some (''cam1'', ''whip'')"
    by (simp add: demoRequest_def demo_endpoint)
  moreover have "Method ?q = ''OPTIONS''" by (simp add: demoRequest_def)
  ultimately have second: "\<exists>c. serve demoExternals demoServer ?q = Inr c \<and>
        hd (trace c) = CallGetConfForPath (accessRequest demoExternals ?q ''cam1'' True)"
    using preflight_by_request_method [of ?q demoExternals demoServer] by auto
  from get first second show ?thesis by simp
qed

text \<open>
  C5, as stated, fails. The claim: every OPTIONS request to a WHIP/WHEP endpoint, without
  an \<open>Access-Control-Request-Method\<close> header, that passes the authentication is
  answered 204 with \<open>Access-Control-Allow-Methods\<close> and with the \<open>Link\<close> entries of
  the ICE servers. When the coordinator cannot produce the list of ICE servers, the request
  of the user \<open>admin\<close> passes the authentication and is answered 500, with neither
  header.
\<close>

theorem options_ice_failure_counterexample:
  "Header_Get (ReqHeader (demoAdmin (demoRequest ''OPTIONS'' ''/cam1/whip'')))
     ''Access-Control-Request-Method'' = [] \<and>
   getConfForPath (pathManager demoServerNoICE)
     (accessRequest demoExternals (demoAdmin (demoRequest ''OPTIONS'' ''/cam1/whip'')) ''cam1'' True)
     = None \<and>
   serve demoExternals demoServerNoICE (demoAdmin (demoRequest ''OPTIONS'' ''/cam1/whip''))
     = Inr (onWHIPOptions demoExternals demoServerNoICE
             (corsHeaders demoServerNoICE (newContext (demoAdmin (demoRequest ''OPTIONS'' ''/cam1/whip''))))
             ''cam1'' True) \<and>
   status (Writer (onWHIPOptions demoExternals demoServerNoICE
             (corsHeaders demoServerNoICE (newContext (demoAdmin (demoRequest ''OPTIONS'' ''/cam1/whip''))))
             ''cam1'' True)) = Some 500 \<and>
   hdr (Writer (onWHIPOptions demoExternals demoServerNoICE
             (corsHeaders demoServerNoICE (newContext (demoAdmin (demoRequest ''OPTIONS'' ''/cam1/whip''))))
             ''cam1'' True)) ''Access-Control-Allow-Methods'' = None \<and>
   hdr (Writer (onWHIPOptions demoExternals demoServerNoICE
             (corsHeaders demoServerNoICE (newContext (demoAdmin (demoRequest ''OPTIONS'' ''/cam1/whip''))))
             ''cam1'' True)) ''Link'' = None"
proof -
  let ?r = "demoAdmin (demoRequest ''OPTIONS'' ''/cam1/whip'')"
  let ?ctx = "corsHeaders demoServerNoICE (newContext ?r)"
  have get: "Header_Get (ReqHeader ?r) ''Access-Control-Request-Method'' = []"
    by (simp add: demoAdmin_def demoRequest_def Header_Get_def)
  have conf: "getConfForPath (pathManager demoServerNoICE) (accessRequest demoExternals ?r ''cam1'' True) = None"
    by (simp add: demoServerNoICE_def demoServer_def demoPathManager_def accessRequest_def
        credentials_def demoAdmin_def demoRequest_def)
  have run: "onRequest demoExternals demoServerNoICE (newContext ?r)
      = Inr (onWHIPOptions demoExternals demoServerNoICE ?ctx ''cam1'' (''whip'' = ''whip''))"
    by (rule onRequest_options) (simp_all add: get demo_endpoint, simp_all add: demoAdmin_def demoRequest_def demo_endpoint)
  have "checkAuthOutsideSession demoExternals demoServerNoICE ?ctx ''cam1'' True
      = (True, emit (CallGetConfForPath (accessRequest demoExternals (Request ?ctx) ''cam1'' True)) ?ctx)"
    by (rule checkAuthOutsideSession_ok) (simp add: conf)
  from onWHIPOptions_admitted [OF this]
  have out: "onWHIPOptions demoExternals demoServerNoICE ?ctx ''cam1'' True
      = WriteHeader StatusInternalServerError
          (emit CallGenerateICEServers
            (emit (CallGetConfForPath (accessRequest demoExternals (Request ?ctx) ''cam1'' True)) ?ctx))"
    by (simp add: demoServerNoICE_def)
  show ?thesis
    using get conf run by (simp add: serve_def out status_defs)
qed

text \<open>
  C5, amended. Every OPTIONS request to a WHIP/WHEP endpoint, without an
  \<open>Access-Control-Request-Method\<close> header, that passes the authentication and for which
  the coordinator produces its list of ICE servers is answered 204, with the header
  \<open>Access-Control-Allow-Methods: OPTIONS, GET, POST, PATCH, DELETE\<close> and with the
  \<open>Link\<close> entries that \<open>LinkHeaderMarshal\<close> makes of that list.
\<close>

theorem options_lists_ice_servers:
  assumes "Method r = ''OPTIONS''"
    and "Header_Get (ReqHeader r) ''Access-Control-Request-Method'' = []"
    and "Path (url r) = ''/'' @ name @ ''/'' @ kind"
    and "kind = ''whip'' \<or> kind = ''whep''" and "name \<noteq> []" and "LF \<notin> set name"
    and "getConfForPath (pathManager s) (accessRequest x r name (kind = ''whip'')) = None"
    and "generateICEServers (parent s) = Inr servers"
  shows "\<exists>c. serve x s r = Inr c \<and>
     status (Writer c) = Some 204 \<and>
     hdr (Writer c) ''Access-Control-Allow-Methods'' = Some [''OPTIONS, GET, POST, PATCH, DELETE''] \<and>
     hdr (Writer c) ''Link'' = Some (LinkHeaderMarshal x servers) \<and>
     trace c = [CallGetConfForPath (accessRequest x r name (kind = ''whip'')),
                CallGenerateICEServers, WroteHeader 204]"
proof -
  let ?ctx = "corsHeaders s (newContext r)"
  let ?pub = "kind = ''whip''"
  have "reWHIPWHEPNoID (''/'' @ name @ ''/'' @ kind) = Some (name, kind)"
    using assms(5,6,4) by (rule reWHIPWHEPNoID_complete)
  with assms(3) have m: "reWHIPWHEPNoID (Path (url (Request (newContext r)))) = Some (name, kind)"
    by simp
  have run: "serve x s r = Inr (onWHIPOptions x s ?ctx name ?pub)"
    unfolding serve_def using _ _ m by (rule onRequest_options) (simp_all add: assms(1,2))
  have "checkAuthOutsideSession x s ?ctx name ?pub
      = (True, emit (CallGetConfForPath (accessRequest x (Request ?ctx) name ?pub)) ?ctx)"
    by (rule checkAuthOutsideSession_ok) (simp add: assms(7))
  from onWHIPOptions_admitted [OF this] run assms(8) show ?thesis
    by (simp add: status_defs)
qed

text \<open>The user \<open>admin\<close> asks the concrete server for the options of \<open>/cam1/whip\<close>.\<close>

theorem options_lists_ice_servers_witness:
  "getConfForPath (pathManager demoServer)
     (accessRequest demoExternals (demoAdmin (demoRequest ''OPTIONS'' ''/cam1/whip'')) ''cam1'' True)
     = None \<and>
   (\<exists>c. serve demoExternals demoServer (demoAdmin (demoRequest ''OPTIONS'' ''/cam1/whip'')) = Inr c \<and>
        status (Writer c) = Some 204 \<and>
        hdr (Writer c) ''Access-Control-Allow-Methods'' = Some [''OPTIONS, GET, POST, PATCH, DELETE''] \<and>
        hdr (Writer c) ''Link'' = Some [''<stun:stun.example.org:3478>; rel=ice-server''])"
proof -
  let ?r = "demoAdmin (demoRequest ''OPTIONS'' ''/cam1/whip'')"
  have conf: "getConfForPath (pathManager demoServer) (accessRequest demoExternals ?r ''cam1'' (''whip'' = ''whip'')) = None"
    by (simp add: demoServer_def demoPathManager_def accessRequest_def credentials_def
        demoAdmin_def demoRequest_def)
  have ice: "generateICEServers (parent demoServer)
      = Inr [\<lparr>URLs = [''stun:stun.example.org:3478''], Username = [], Credential = []\<rparr>]"
    by (simp add: demoServer_def demoParent_def)
  have "\<exists>c. serve demoExternals demoServer ?r = Inr c \<and>
        status (Writer c) = Some 204 \<and>
        hdr (Writer c) ''Access-Control-Allow-Methods'' = Some [''OPTIONS, GET, POST, PATCH, DELETE''] \<and>
        hdr (Writer c) ''Link'' = Some [''<stun:stun.example.org:3478>; rel=ice-server'']"
    using options_lists_ice_servers [of ?r "''cam1''" "''whip''" demoServer demoExternals,
        OF _ _ _ _ _ _ conf ice]
    by (auto simp add: demoAdmin_def demoRequest_def Header_Get_def LF_def demoExternals_def)
  with conf show ?thesis by simp
qed




text \<open>
  C7. Every GET, HEAD or PUT request to a WHIP/WHEP endpoint \<open>/<path>/whip\<close> or
  \<open>/<path>/whep\<close> is answered with the status 405 Method Not Allowed, whatever the
  collaborators do. The path name is one the endpoint pattern accepts: not empty and
  without a line feed.
\<close>

theorem whip_endpoint_get_head_put_405:
  assumes "Method (Request ctx) = ''GET'' \<or> Method (Request ctx) = ''HEAD'' \<or>
           Method (Request ctx) = ''PUT''"
    and "Path (url (Request ctx)) = ''/'' @ name @ ''/'' @ kind"
    and "kind = ''whip'' \<or> kind = ''whep''"
    and "name \<noteq> []" and "LF \<notin> set name"
  shows "\<exists>c. onRequest x s ctx = Inr c \<and> status (Writer c) = Some 405"
proof -
  have "reWHIPWHEPNoID (''/'' @ name @ ''/'' @ kind) = Some (name, kind)"
    using assms(4,5,3) by (rule reWHIPWHEPNoID_complete)
  with assms(2) have "reWHIPWHEPNoID (Path (url (Request ctx))) = Some (name, kind)"
    by simp
  with assms(1) have "onRequest x s ctx = Inr (WriteHeader StatusMethodNotAllowed (corsHeaders s ctx))"
    by (rule onRequest_not_allowed)
  then show ?thesis by (simp add: status_defs)
qed

text \<open>A PUT to \<open>/cam1/whep\<close> on the concrete server.\<close>

theorem whip_endpoint_get_head_put_405_witness:
  "Method (demoRequest ''PUT'' ''/cam1/whep'') = ''PUT'' \<and>
   Path (url (demoRequest ''PUT'' ''/cam1/whep'')) = ''/'' @ ''cam1'' @ ''/'' @ ''whep'' \<and>
   (\<exists>c. serve demoExternals demoServer (demoRequest ''PUT'' ''/cam1/whep'') = Inr c \<and>
        status (Writer c) = Some 405)"
  using whip_endpoint_get_head_put_405
    [of "newContext (demoRequest ''PUT'' ''/cam1/whep'')" "''cam1''" "''whep''" demoExternals demoServer]
  by (simp add: serve_def demoRequest_def LF_def)

text \<open>
  C8. Every response of the server carries the header \<open>Access-Control-Allow-Origin\<close>
  with the configured value \<open>allowOrigin\<close> and the header
  \<open>Access-Control-Allow-Credentials: true\<close>: whatever the method, the path, the
  collaborators and the outcome, when \<open>onRequest\<close> returns, the writer holds both. (When
  it panics instead, no response is sent.)
\<close>

theorem cors_headers_on_every_response:
  assumes "onRequest x s ctx = Inr c"
  shows "hdr (Writer c) ''Access-Control-Allow-Origin'' = Some [allowOrigin s] \<and>
         hdr (Writer c) ''Access-Control-Allow-Credentials'' = Some [''true'']"
  using onRequest_cors [OF assms, of "''Access-Control-Allow-Origin''"]
    onRequest_cors [OF assms, of "''Access-Control-Allow-Credentials''"]
  by simp

text \<open>A DELETE to a path that is no WHIP/WHEP URL: no handler is reached, and the two
  headers are there.\<close>

theorem cors_headers_on_every_response_witness:
  "onRequest demoExternals demoServer (newContext (demoRequest ''DELETE'' ''/nothing/here''))
     = Inr (corsHeaders demoServer (newContext (demoRequest ''DELETE'' ''/nothing/here''))) \<and>
   hdr (Writer (corsHeaders demoServer (newContext (demoRequest ''DELETE'' ''/nothing/here''))))
     ''Access-Control-Allow-Origin'' = Some [allowOrigin demoServer] \<and>
   hdr (Writer (corsHeaders demoServer (newContext (demoRequest ''DELETE'' ''/nothing/here''))))
     ''Access-Control-Allow-Credentials'' = Some [''true'']"
proof -
  have run: "onRequest demoExternals demoServer (newContext (demoRequest ''DELETE'' ''/nothing/here''))
     = Inr (corsHeaders demoServer (newContext (demoRequest ''DELETE'' ''/nothing/here'')))"
    by (simp add: onRequest_def Let_def demoRequest_def method_defs reWHIPWHEPNoID_def
        reWHIPWHEPWithID_def matchKindID_def lastGroup_def LF_def)
  from cors_headers_on_every_response [OF run] run show ?thesis by simp
qed

text \<open>
  C9, as stated, fails. The claim: every GET whose path is not a WHIP/WHEP endpoint, has
  at least three characters, is not \<open>/favicon.ico\<close> and ends neither in
  \<open>/publish\<close> nor in a slash is answered with 301 and the path with a slash appended as
  its \<open>Location\<close>. The path \<open>/cam1/whip/abc\<close> is all of that: it is the URL of a
  session and no endpoint \<open>/<path>/whip\<close>. A GET to it reaches the block of the session
  URLs, which has no case for GET and returns: no status is written and no \<open>Location\<close>.
\<close>

theorem get_session_url_no_redirect_counterexample:
  "reWHIPWHEPNoID ''/cam1/whip/abc'' = None \<and>
   3 \<le> length ''/cam1/whip/abc'' \<and>
   ''/cam1/whip/abc'' \<noteq> ''/favicon.ico'' \<and>
   \<not> HasSuffix ''/cam1/whip/abc'' ''/publish'' \<and>
   last ''/cam1/whip/abc'' \<noteq> CHR ''/'' \<and>
   serve demoExternals demoServer (demoRequest ''GET'' ''/cam1/whip/abc'')
     = Inr (corsHeaders demoServer (newContext (demoRequest ''GET'' ''/cam1/whip/abc''))) \<and>
   status (Writer (corsHeaders demoServer (newContext (demoRequest ''GET'' ''/cam1/whip/abc'')))) = None \<and>
   hdr (Writer (corsHeaders demoServer (newContext (demoRequest ''GET'' ''/cam1/whip/abc''))))
     ''Location'' = None"
proof -
  have no: "reWHIPWHEPNoID ''/cam1/whip/abc'' = None"
    by (simp add: reWHIPWHEPNoID_def LF_def)
  have yes: "reWHIPWHEPWithID ''/cam1/whip/abc'' = Some (''cam1'', ''whip'', ''abc'')"
    by (simp add: reWHIPWHEPWithID_def matchKindID_def lastGroup_def LF_def)
  have "onRequest demoExternals demoServer (newContext (demoRequest ''GET'' ''/cam1/whip/abc''))
      = Inr (corsHeaders demoServer (newContext (demoRequest ''GET'' ''/cam1/whip/abc'')))"
    by (rule onRequest_session_other [where ?m1.0 = "''cam1''" and ?m2.0 = "''whip''" and ?m3.0 = "''abc''"])
       (simp_all add: demoRequest_def no yes)
  with no show ?thesis
    by (simp add: serve_def HasSuffix_def)
qed

text \<open>
  C9, amended. Every GET whose path matches neither the endpoint pattern nor the pattern
  of the session URLs, has at least three characters, is not \<open>/favicon.ico\<close> and ends
  neither in \<open>/publish\<close> nor in a slash is answered with 301 and with the
  \<open>Location\<close> of the same path with a slash appended, followed by \<open>?\<close> and the
  query when there is one; nothing is written to the body and no collaborator is called.
\<close>

theorem get_redirect_to_slash:
  assumes "Method (Request ctx) = ''GET''"
    and "reWHIPWHEPNoID (Path (url (Request ctx))) = None"
    and "reWHIPWHEPWithID (Path (url (Request ctx))) = None"
    and "3 \<le> length (Path (url (Request ctx)))"
    and "Path (url (Request ctx)) \<noteq> ''/favicon.ico''"
    and "\<not> HasSuffix (Path (url (Request ctx))) ''/publish''"
    and "last (Path (url (Request ctx))) \<noteq> CHR ''/''"
  shows "\<exists>c. onRequest x s ctx = Inr c \<and>
     status (Writer c) = Some 301 \<and>
     hdr (Writer c) ''Location'' =
       Some [Path (url (Request ctx)) @ ''/'' @
             (if RawQuery (url (Request ctx)) = [] then [] else ''?'' @ RawQuery (url (Request ctx)))] \<and>
     body (Writer c) = body (Writer ctx) \<and>
     trace c = trace ctx @ [WroteHeader 301]"
proof -
  let ?p = "Path (url (Request ctx))"
  from assms(4) have "?p \<noteq> []" by auto
  then have "last ?p = ?p ! (length ?p - 1)" by (rule last_conv_nth)
  with assms(7) have "?p ! (length ?p - 1) \<noteq> CHR ''/''" by simp
  with assms have "onRequest x s ctx =
     Inr (WriteHeader StatusMovedPermanently
           (Header_Set ''Location''
              (relativeLocation (url (Request (appendPath ''/'' (corsHeaders s ctx)))))
              (appendPath ''/'' (corsHeaders s ctx))))"
    by (intro onRequest_redirect)
  then show ?thesis
    by (simp add: relativeLocation_def status_defs)
qed

text \<open>\<open>GET /cam1?x=1\<close> is sent to \<open>/cam1/?x=1\<close>.\<close>

theorem get_redirect_to_slash_witness:
  "reWHIPWHEPNoID ''/cam1'' = None \<and> reWHIPWHEPWithID ''/cam1'' = None \<and>
   \<not> HasSuffix ''/cam1'' ''/publish'' \<and>
   (\<exists>c. serve demoExternals demoServer
          ((demoRequest ''GET'' ''/cam1'')\<lparr>url := \<lparr>Path = ''/cam1'', RawQuery = ''x=1''\<rparr>\<rparr>) = Inr c \<and>
        status (Writer c) = Some 301 \<and>
        hdr (Writer c) ''Location'' = Some [''/cam1/?x=1''] \<and>
        body (Writer c) = [] \<and>
        trace c = [WroteHeader 301])"
  using get_redirect_to_slash
    [of "newContext ((demoRequest ''GET'' ''/cam1'')\<lparr>url := \<lparr>Path = ''/cam1'', RawQuery = ''x=1''\<rparr>\<rparr>)"
      demoExternals demoServer]
  by (simp add: serve_def demoRequest_def reWHIPWHEPNoID_def reWHIPWHEPWithID_def matchKindID_def
      lastGroup_def LF_def HasSuffix_def)




end
